theory Spec2Isabelle
  imports Complex_Main "HOL-Library.Sublist"
begin

section \<open>The JavaScript values the script computes with\<close>

subsection \<open>Numbers\<close>

text \<open>
  A JavaScript Number is an IEEE 754 binary64 value. \<open>Fin q\<close> is a finite one other than
  negative zero, held as the rational \<open>q\<close> it denotes; \<open>NegZero\<close> is \<open>-0\<close>. The
  script never computes with Numbers: it parses them, compares them with \<open>0\<close>, stores them
  and formats them.
\<close>

datatype number = NaN | PosInfinity | NegInfinity | NegZero | Fin rat

text \<open>The operator \<open><\<close> on two Numbers: false when either is \<open>NaN\<close>, and \<open>-0 < 0\<close> is false.\<close>

fun lt :: "number \<Rightarrow> number \<Rightarrow> bool" where
  "lt NaN y = False"
| "lt x NaN = False"
| "lt PosInfinity y = False"
| "lt x NegInfinity = False"
| "lt NegInfinity y = True"
| "lt x PosInfinity = True"
| "lt NegZero NegZero = False"
| "lt NegZero (Fin q) = (0 < q)"
| "lt (Fin p) NegZero = (p < 0)"
| "lt (Fin p) (Fin q) = (p < q)"

text \<open>
  Rounding of the non-negative rational \<open>a / b\<close> (with \<open>0 < b\<close>) to the nearest binary64
  value, ties to even, with the sign given apart: \<open>e\<close> is the exponent of the leading bit,
  not below that of the subnormals, and \<open>n\<close> the significand of 53 bits.
\<close>

fun bitLength :: "int \<Rightarrow> int" where
  "bitLength n = (if n \<le> 0 then 0 else bitLength (n div 2) + 1)"

declare bitLength.simps [simp del]

definition scale2 :: "int \<Rightarrow> int \<Rightarrow> int \<Rightarrow> int \<times> int" where
  "scale2 s a b = (if 0 \<le> s then (a * 2 ^ nat s, b) else (a, b * 2 ^ nat (- s)))"

definition floorLog2 :: "int \<Rightarrow> int \<Rightarrow> int" where
  "floorLog2 a b =
     (let k = bitLength a - bitLength b;
          (a', b') = scale2 (- k) a b
      in if b' \<le> a' then k else k - 1)"

definition roundHalfEven :: "int \<Rightarrow> int \<Rightarrow> int" where
  "roundHalfEven a b =
     (let q = a div b; r = a mod b
      in if 2 * r < b then q
         else if b < 2 * r then q + 1
         else if even q then q else q + 1)"

definition roundToDouble :: "bool \<Rightarrow> int \<Rightarrow> int \<Rightarrow> number" where
  "roundToDouble negative a b =
     (if a = 0 then (if negative then NegZero else Fin 0)
      else
        let e = max (floorLog2 a b) (- 1022);
            (a', b') = scale2 (52 - e) a b;
            n = roundHalfEven a' b'
        in if n = 0 then (if negative then NegZero else Fin 0)
           else if 1024 \<le> e \<or> (e = 1023 \<and> n = 2 ^ 53)
             then (if negative then NegInfinity else PosInfinity)
           else let (p, q) = scale2 (e - 52) n 1;
                    v = of_int p / of_int q
                in Fin (if negative then - v else v))"

subsection \<open>Strings\<close>

text \<open>
  A string is held as the bytes of its UTF-8 encoding. \<open>whiteSpace\<close> lists the encodings of
  the characters that \<open>String.prototype.trim\<close> and the numeric parsers skip: the white space
  and line terminator code points U+0009 to U+000D, U+0020, U+00A0, U+1680, U+2000 to U+200A,
  U+2028, U+2029, U+202F, U+205F, U+3000 and U+FEFF.
\<close>

definition whiteSpace :: "string list" where
  "whiteSpace =
     [[CHR 0x09], [CHR 0x0A], [CHR 0x0B], [CHR 0x0C], [CHR 0x0D], [CHR 0x20],
      [CHR 0xC2, CHR 0xA0], [CHR 0xE1, CHR 0x9A, CHR 0x80],
      [CHR 0xE2, CHR 0x80, CHR 0x80], [CHR 0xE2, CHR 0x80, CHR 0x81],
      [CHR 0xE2, CHR 0x80, CHR 0x82], [CHR 0xE2, CHR 0x80, CHR 0x83],
      [CHR 0xE2, CHR 0x80, CHR 0x84], [CHR 0xE2, CHR 0x80, CHR 0x85],
      [CHR 0xE2, CHR 0x80, CHR 0x86], [CHR 0xE2, CHR 0x80, CHR 0x87],
      [CHR 0xE2, CHR 0x80, CHR 0x88], [CHR 0xE2, CHR 0x80, CHR 0x89],
      [CHR 0xE2, CHR 0x80, CHR 0x8A], [CHR 0xE2, CHR 0x80, CHR 0xA8],
      [CHR 0xE2, CHR 0x80, CHR 0xA9], [CHR 0xE2, CHR 0x80, CHR 0xAF],
      [CHR 0xE2, CHR 0x81, CHR 0x9F], [CHR 0xE3, CHR 0x80, CHR 0x80],
      [CHR 0xEF, CHR 0xBB, CHR 0xBF]]"

text \<open>The number of bytes of the first of the strings \<open>ws\<close> that \<open>s\<close> starts with, or 0.\<close>

definition leadingLength :: "string list \<Rightarrow> string \<Rightarrow> nat" where
  "leadingLength ws s = (case find (\<lambda>w. prefix w s) ws of None \<Rightarrow> 0 | Some w \<Rightarrow> length w)"

function stripLeading :: "string list \<Rightarrow> string \<Rightarrow> string" where
  "stripLeading ws s =
     (if leadingLength ws s = 0 then s else stripLeading ws (drop (leadingLength ws s) s))"
  by pat_completeness auto
termination
proof (relation "measure (\<lambda>(ws, s). length s)")
  show "wf (measure (\<lambda>(ws, s). length s))" by simp
next
  fix ws :: "string list" and s :: string
  assume nonzero: "leadingLength ws s \<noteq> 0"
  have "leadingLength ws s \<le> length s"
  proof (cases "find (\<lambda>w. prefix w s) ws")
    case None
    then show ?thesis by (simp add: leadingLength_def)
  next
    case (Some w)
    then have "prefix w s" by (auto simp: find_Some_iff)
    with Some show ?thesis by (simp add: leadingLength_def prefix_length_le)
  qed
  with nonzero
  show "((ws, drop (leadingLength ws s) s), (ws, s)) \<in> measure (\<lambda>(ws, s). length s)"
    by simp
qed

declare stripLeading.simps [simp del]

definition trimStart :: "string \<Rightarrow> string" where
  "trimStart s = stripLeading whiteSpace s"

definition trimEnd :: "string \<Rightarrow> string" where
  "trimEnd s = rev (stripLeading (map rev whiteSpace) (rev s))"

definition trim :: "string \<Rightarrow> string" where
  "trim s = trimEnd (trimStart s)"

subsection \<open>Numeric literals in strings\<close>

definition isDecimalDigit :: "char \<Rightarrow> bool" where
  "isDecimalDigit c = (c \<in> set ''0123456789'')"

text \<open>
  The value of a digit in a radix up to 16: \<open>0\<close> to \<open>9\<close>, then \<open>a\<close> to \<open>f\<close> in either case.
\<close>

definition digitValue :: "char \<Rightarrow> int" where
  "digitValue c =
     (if c \<in> set ''abcdef'' then int (of_char c) - 87
      else if c \<in> set ''ABCDEF'' then int (of_char c) - 55
      else int (of_char c) - 48)"

definition digitsValue :: "int \<Rightarrow> string \<Rightarrow> int" where
  "digitsValue radix ds = foldl (\<lambda>n d. radix * n + digitValue d) 0 ds"

text \<open>
  An optional \<open>ExponentPart\<close> at the head of \<open>s\<close>: the exponent and the rest of the string.
  An \<open>e\<close> that no digit follows is no exponent part and stays in the rest.
\<close>

definition exponentPart :: "string \<Rightarrow> int \<times> string" where
  "exponentPart s =
     (case s of
        [] \<Rightarrow> (0, s)
      | c # r \<Rightarrow>
          if c \<in> set ''eE'' then
            (let negative = (r \<noteq> [] \<and> hd r = CHR ''-'');
                 r' = (if r \<noteq> [] \<and> hd r \<in> set ''+-'' then tl r else r);
                 ds = takeWhile isDecimalDigit r'
             in if ds = [] then (0, s)
                else (if negative then - digitsValue 10 ds else digitsValue 10 ds,
                      dropWhile isDecimalDigit r'))
          else (0, s))"

text \<open>
  The longest prefix of \<open>s\<close> that is a \<open>StrUnsignedDecimalLiteral\<close>: its Number value under
  the sign read before it, and the rest of \<open>s\<close>; \<open>None\<close> when no prefix is one.
\<close>

definition strUnsignedDecimalLiteral :: "bool \<Rightarrow> string \<Rightarrow> (number \<times> string) option" where
  "strUnsignedDecimalLiteral negative s =
     (if prefix ''Infinity'' s
        then Some (if negative then NegInfinity else PosInfinity, drop 8 s)
      else
        let ip = takeWhile isDecimalDigit s;
            r1 = dropWhile isDecimalDigit s;
            hasDot = (r1 \<noteq> [] \<and> hd r1 = CHR ''.'');
            fp = (if hasDot then takeWhile isDecimalDigit (tl r1) else []);
            r2 = (if hasDot then dropWhile isDecimalDigit (tl r1) else r1)
        in if ip = [] \<and> fp = [] then None
           else
             let (e, r3) = exponentPart r2;
                 m = digitsValue 10 (ip @ fp);
                 x = e - int (length fp)
             in Some (if 0 \<le> x then roundToDouble negative (m * 10 ^ nat x) 1
                      else roundToDouble negative m (10 ^ nat (- x)),
                      r3))"

definition strDecimalLiteral :: "string \<Rightarrow> (number \<times> string) option" where
  "strDecimalLiteral s =
     (case s of
        [] \<Rightarrow> None
      | c # r \<Rightarrow>
          if c = CHR ''+'' then strUnsignedDecimalLiteral False r
          else if c = CHR ''-'' then strUnsignedDecimalLiteral True r
          else strUnsignedDecimalLiteral False s)"

text \<open>
  A \<open>NonDecimalIntegerLiteral\<close>: \<open>0b\<close>, \<open>0o\<close> or \<open>0x\<close> (in either case) and at least one
  digit of that radix, with nothing after them. \<open>radixOfPrefix\<close> is 0 for a character that
  is no radix prefix.
\<close>

definition radixOfPrefix :: "char \<Rightarrow> int" where
  "radixOfPrefix p =
     (if p \<in> set ''bB'' then 2 else if p \<in> set ''oO'' then 8
      else if p \<in> set ''xX'' then 16 else 0)"

definition digitsOfRadix :: "int \<Rightarrow> string" where
  "digitsOfRadix radix =
     (if radix = 2 then ''01'' else if radix = 8 then ''01234567''
      else ''0123456789abcdefABCDEF'')"

fun nonDecimalIntegerLiteral :: "string \<Rightarrow> int option" where
  "nonDecimalIntegerLiteral (z # p # ds) =
     (if z = CHR ''0'' \<and> radixOfPrefix p \<noteq> 0 \<and> ds \<noteq> [] \<and>
         list_all (\<lambda>d. d \<in> set (digitsOfRadix (radixOfPrefix p))) ds
      then Some (digitsValue (radixOfPrefix p) ds) else None)"
| "nonDecimalIntegerLiteral s = None"

text \<open>
  \<open>StringToNumber\<close>, the conversion that \<open>Number(s)\<close> and \<open>isNaN(s)\<close> apply to a string:
  white space around the literal is skipped, the empty string is \<open>0\<close>, and the whole
  rest has to be one literal.
\<close>

definition StringToNumber :: "string \<Rightarrow> number" where
  "StringToNumber s =
     (let t = trim s
      in if t = [] then Fin 0
         else case nonDecimalIntegerLiteral t of
                Some n \<Rightarrow> roundToDouble False n 1
              | None \<Rightarrow>
                  (case strDecimalLiteral t of
                     None \<Rightarrow> NaN
                   | Some (v, rest) \<Rightarrow> if rest = [] then v else NaN))"

text \<open>The global \<open>isNaN\<close>, called on a string.\<close>

definition isNaN :: "string \<Rightarrow> bool" where
  "isNaN s = (StringToNumber s = NaN)"

text \<open>
  The global \<open>parseFloat\<close>: leading white space is skipped, and the longest prefix that is
  a decimal literal is converted; whatever follows it is ignored.
\<close>

definition parseFloat :: "string \<Rightarrow> number" where
  "parseFloat s =
     (case strDecimalLiteral (trimStart s) of
        None \<Rightarrow> NaN
      | Some (v, rest) \<Rightarrow> v)"

subsection \<open>The digits of a whole amount\<close>

text \<open>
  The decimal digits of a whole number that is not negative, and the same digits in groups
  of three with commas between the groups, counted from the right. They serve to say, where a
  statement needs it, what a host does whose locale separates thousands with commas; they
  are no part of the script.
\<close>

fun decimalDigits :: "int \<Rightarrow> string" where
  "decimalDigits n =
     (if n < 10 then [char_of (48 + n)]
      else decimalDigits (n div 10) @ [char_of (48 + n mod 10)])"

declare decimalDigits.simps [simp del]

fun groupDigits :: "string \<Rightarrow> string" where
  "groupDigits ds =
     (if length ds \<le> 3 then ds
      else groupDigits (take (length ds - 3) ds) @ '','' @ drop (length ds - 3) ds)"

declare groupDigits.simps [simp del]

section \<open>The page and the chart library\<close>

text \<open>
  A form field as the script uses it: the text that its \<open>value\<close> property returns (for a
  field of type \<open>number\<close>, what the browser has left of the user's text) and the tokens
  of its \<open>classList\<close>, an ordered set. The field carries the invalid marker when the token
  \<open>is-invalid\<close> is among them.
\<close>

record input =
  input_value :: string
  classList :: "string list"

definition classList_add :: "string \<Rightarrow> input \<Rightarrow> input" where
  "classList_add token input =
     (if token \<in> set (classList input) then input
      else input\<lparr>classList := classList input @ [token]\<rparr>)"

definition classList_remove :: "string \<Rightarrow> input \<Rightarrow> input" where
  "classList_remove token input = input\<lparr>classList := removeAll token (classList input)\<rparr>"

definition classList_contains :: "string \<Rightarrow> input \<Rightarrow> bool" where
  "classList_contains token input = (token \<in> set (classList input))"

text \<open>The configuration object that \<open>renderChart\<close> hands to the \<open>Chart\<close> constructor.\<close>

record dataset =
  label :: string
  data :: "number list"
  backgroundColor :: string
  borderColor :: string
  borderWidth :: nat

record tooltipItem =
  dataset_label :: string
  parsed_y :: number

record config =
  chart_type :: string
  labels :: "string list"
  datasets :: "dataset list"
  responsive :: bool
  y_beginAtZero :: bool
  y_ticks_callback :: "number \<Rightarrow> string"
  legend_display :: bool
  legend_position :: string
  tooltip_label :: "tooltipItem \<Rightarrow> string"

text \<open>
  The chart library as the script and its tests see it: the constructor keeps the drawing
  context and the configuration, and the new chart is not destroyed; \<open>destroy\<close> marks the
  chart as destroyed. What \<open>toBase64Image\<close> encodes is the library's business: the export
  handler takes that method as a parameter.
\<close>

datatype context2d = Context2D

record chart =
  ctx :: context2d
  chart_config :: config
  destroyed :: bool

text \<open>The download link that the export handler creates and clicks.\<close>

record anchor =
  href :: string
  download :: string

datatype exception = TypeError

text \<open>
  A call to the chart library: the constructor, with the address of the chart it constructs
  and the addresses of the charts that are not destroyed when it is called, or \<open>destroy\<close>,
  with the address of its chart.
\<close>

datatype libraryCall = Chart_new nat "nat list" | Chart_destroy nat

text \<open>
  The state the script runs in. \<open>incomeInputs\<close> and \<open>expenseInputs\<close> are the fields that
  \<open>querySelectorAll\<close> finds for the two selectors, in document order (two disjoint lists of
  elements); \<open>budgetChart\<close> is the drawing context of the canvas of that id, \<open>None\<close> when
  the document has no such element. \<open>charts\<close> is the store of all \<open>Chart\<close> objects
  constructed so far, a chart's address being its position, and \<open>chartInstance\<close> is the
  script's global variable: \<open>None\<close> for \<open>null\<close>, or the address of a chart. \<open>alerts\<close> and
  \<open>downloads\<close> record the messages shown with \<open>alert\<close> and the links clicked, and
  \<open>calls\<close> the calls to the chart library, each oldest first. \<open>toLocaleString\<close> is the
  host's \<open>Number.prototype.toLocaleString\<close> called without arguments: it formats for the
  default locale of the host, which the script does not choose, so it is a parameter of the
  page and nothing is said here of what it returns.
\<close>

record page =
  incomeInputs :: "input list"
  expenseInputs :: "input list"
  budgetChart :: "context2d option"
  chartInstance :: "nat option"
  charts :: "chart list"
  alerts :: "string list"
  downloads :: "anchor list"
  calls :: "libraryCall list"
  toLocaleString :: "number \<Rightarrow> string"

text \<open>The addresses of the charts that are not destroyed.\<close>

definition liveCharts :: "page \<Rightarrow> nat list" where
  "liveCharts w = filter (\<lambda>a. \<not> destroyed (charts w ! a)) [0..<length (charts w)]"

definition alert :: "string \<Rightarrow> page \<Rightarrow> page" where
  "alert message w = w\<lparr>alerts := alerts w @ [message]\<rparr>"

definition destroy :: "nat \<Rightarrow> page \<Rightarrow> page" where
  "destroy a w =
     w\<lparr>charts := (charts w)[a := (charts w ! a)\<lparr>destroyed := True\<rparr>],
       calls := calls w @ [Chart_destroy a]\<rparr>"

definition new_Chart :: "context2d \<Rightarrow> config \<Rightarrow> page \<Rightarrow> nat \<times> page" where
  "new_Chart c cfg w =
     (length (charts w),
      w\<lparr>charts := charts w @ [\<lparr>ctx = c, chart_config = cfg, destroyed = False\<rparr>],
        calls := calls w @ [Chart_new (length (charts w)) (liveCharts w)]\<rparr>)"

text \<open>
  \<open>forEach\<close> on a list of elements, for a callback that may change the element it is given
  and the variables \<open>s\<close> of the enclosing function.
\<close>

fun forEach :: "('a \<Rightarrow> 's \<Rightarrow> 'a \<times> 's) \<Rightarrow> 'a list \<Rightarrow> 's \<Rightarrow> 'a list \<times> 's" where
  "forEach f [] s = ([], s)"
| "forEach f (x # xs) s =
     (let (x', s') = f x s;
          (xs', s'') = forEach f xs s'
      in (x' # xs', s''))"

section \<open>The script\<close>

definition monthLabels :: "string list" where
  "monthLabels =
     [''Jan'', ''Feb'', ''Mar'', ''Apr'', ''May'', ''Jun'',
      ''Jul'', ''Aug'', ''Sep'', ''Oct'', ''Nov'', ''Dec'']"

subsection \<open>validateAndCollectData\<close>

text \<open>
  The three local variables of \<open>validateAndCollectData\<close>, which are also the fields of
  the object it returns.
\<close>

record collected =
  isValid :: bool
  incomeData :: "number list"
  expenseData :: "number list"

text \<open>The two callbacks, one for each \<open>forEach\<close> of the function.\<close>

definition incomeCallback :: "input \<Rightarrow> collected \<Rightarrow> input \<times> collected" where
  "incomeCallback input r =
     (let value = trim (input_value input)
      in if value = [] then
           (classList_remove ''is-invalid'' input, r\<lparr>incomeData := incomeData r @ [Fin 0]\<rparr>)
         else if isNaN value \<or> lt (parseFloat value) (Fin 0) then
           (classList_add ''is-invalid'' input,
            r\<lparr>isValid := False, incomeData := incomeData r @ [Fin 0]\<rparr>)
         else
           (classList_remove ''is-invalid'' input,
            r\<lparr>incomeData := incomeData r @ [parseFloat value]\<rparr>))"

definition expenseCallback :: "input \<Rightarrow> collected \<Rightarrow> input \<times> collected" where
  "expenseCallback input r =
     (let value = trim (input_value input)
      in if value = [] then
           (classList_remove ''is-invalid'' input, r\<lparr>expenseData := expenseData r @ [Fin 0]\<rparr>)
         else if isNaN value \<or> lt (parseFloat value) (Fin 0) then
           (classList_add ''is-invalid'' input,
            r\<lparr>isValid := False, expenseData := expenseData r @ [Fin 0]\<rparr>)
         else
           (classList_remove ''is-invalid'' input,
            r\<lparr>expenseData := expenseData r @ [parseFloat value]\<rparr>))"

definition validateAndCollectData :: "page \<Rightarrow> collected \<times> page" where
  "validateAndCollectData w =
     (let (incomeInputs', r) =
            forEach incomeCallback (incomeInputs w)
              \<lparr>isValid = True, incomeData = [], expenseData = []\<rparr>;
          (expenseInputs', r') = forEach expenseCallback (expenseInputs w) r
      in (r', w\<lparr>incomeInputs := incomeInputs', expenseInputs := expenseInputs'\<rparr>))"

subsection \<open>renderChart\<close>

text \<open>
  The function returns nothing; the model returns the exception that ended the call, if one
  did, and the page the call leaves. The only exception modelled is the \<open>TypeError\<close> of
  \<open>getContext\<close> called on \<open>null\<close>, when the document has no canvas \<open>budgetChart\<close>.
\<close>

definition renderChart :: "page \<Rightarrow> exception option \<times> page" where
  "renderChart w =
     (let (r, w1) = validateAndCollectData w
      in if \<not> isValid r then
           (None, alert ''Please fix the validation errors before updating the chart.'' w1)
         else
           case budgetChart w1 of
             None \<Rightarrow> (Some TypeError, w1)
           | Some c \<Rightarrow>
               let w2 = (case chartInstance w1 of None \<Rightarrow> w1 | Some a \<Rightarrow> destroy a w1);
                   (a, w3) =
                     new_Chart c
                       \<lparr>chart_type = ''bar'',
                        labels = monthLabels,
                        datasets =
                          [\<lparr>label = ''Income'',
                            data = incomeData r,
                            backgroundColor = ''rgba(40, 167, 69, 0.7)'',
                            borderColor = ''rgba(40, 167, 69, 1)'',
                            borderWidth = 1\<rparr>,
                           \<lparr>label = ''Expenses'',
                            data = expenseData r,
                            backgroundColor = ''rgba(220, 53, 69, 0.7)'',
                            borderColor = ''rgba(220, 53, 69, 1)'',
                            borderWidth = 1\<rparr>],
                        responsive = True,
                        y_beginAtZero = True,
                        y_ticks_callback = (\<lambda>value. ''$'' @ toLocaleString w value),
                        legend_display = True,
                        legend_position = ''top'',
                        tooltip_label =
                          (\<lambda>context.
                             dataset_label context @ '': $'' @
                             toLocaleString w (parsed_y context))\<rparr>
                       w2
               in (None, w3\<lparr>chartInstance := Some a\<rparr>))"

subsection \<open>The handlers registered by window.onload\<close>

text \<open>The click handler of the download button.\<close>

definition downloadChartBtn_click :: "(chart \<Rightarrow> string) \<Rightarrow> page \<Rightarrow> page" where
  "downloadChartBtn_click toBase64Image w =
     (case chartInstance w of
        None \<Rightarrow> alert ''Please update the chart first before downloading.'' w
      | Some a \<Rightarrow>
          let imageData = toBase64Image (charts w ! a);
              downloadLink = \<lparr>href = imageData, download = ''budget-chart.png''\<rparr>
          in w\<lparr>downloads := downloads w @ [downloadLink]\<rparr>)"

text \<open>
  What can happen to the page once \<open>window.onload\<close> has registered the handlers: the
  three events they are registered for, and the user changing the text of a field. An
  exception that ends a handler is reported by the browser and the page goes on.
\<close>

datatype event =
    UpdateChartBtn_click
  | ChartTab_shown
  | DownloadChartBtn_click
  | IncomeInput_edit nat string
  | ExpenseInput_edit nat string

definition setValue :: "nat \<Rightarrow> string \<Rightarrow> input list \<Rightarrow> input list" where
  "setValue i text inputs =
     (if i < length inputs then inputs[i := (inputs ! i)\<lparr>input_value := text\<rparr>] else inputs)"

fun dispatch :: "(chart \<Rightarrow> string) \<Rightarrow> event \<Rightarrow> page \<Rightarrow> page" where
  "dispatch toBase64Image UpdateChartBtn_click w = snd (renderChart w)"
| "dispatch toBase64Image ChartTab_shown w = snd (renderChart w)"
| "dispatch toBase64Image DownloadChartBtn_click w = downloadChartBtn_click toBase64Image w"
| "dispatch toBase64Image (IncomeInput_edit i text) w =
     w\<lparr>incomeInputs := setValue i text (incomeInputs w)\<rparr>"
| "dispatch toBase64Image (ExpenseInput_edit i text) w =
     w\<lparr>expenseInputs := setValue i text (expenseInputs w)\<rparr>"

fun run :: "(chart \<Rightarrow> string) \<Rightarrow> event list \<Rightarrow> page \<Rightarrow> page" where
  "run toBase64Image [] w = w"
| "run toBase64Image (e # es) w = run toBase64Image es (dispatch toBase64Image e w)"

text \<open>
  The page right after the script is loaded: \<open>chartInstance\<close> is \<open>null\<close>, no chart has
  been constructed and the chart library has not been called.
\<close>

definition loaded :: "page \<Rightarrow> bool" where
  "loaded w = (chartInstance w = None \<and> charts w = [] \<and> calls w = [])"

text \<open>
  The charts that are live after a sequence of calls to the library, started with none: the
  constructor adds its chart, \<open>destroy\<close> takes its chart away. The moments of a run are the
  prefixes of its calls. This counts the calls alone; what a call of the constructor found in
  the store is in the call itself.
\<close>

fun afterCall :: "nat list \<Rightarrow> libraryCall \<Rightarrow> nat list" where
  "afterCall live (Chart_new a seen) = live @ [a]"
| "afterCall live (Chart_destroy a) = removeAll a live"

definition liveAfter :: "libraryCall list \<Rightarrow> nat list" where
  "liveAfter cs = foldl afterCall [] cs"

subsection \<open>What one callback does to one field\<close>

text \<open>
  Both callbacks treat a field alike. \<open>rejected\<close> is the test of their second branch for a
  field that reaches it, \<open>validated\<close> is the field they leave and \<open>collectedValue\<close> the
  number they push.
\<close>

definition rejected :: "input \<Rightarrow> bool" where
  "rejected x =
     (trim (input_value x) \<noteq> [] \<and>
      (isNaN (trim (input_value x)) \<or> lt (parseFloat (trim (input_value x))) (Fin 0)))"

definition validated :: "input \<Rightarrow> input" where
  "validated x =
     (if rejected x then classList_add ''is-invalid'' x else classList_remove ''is-invalid'' x)"

definition collectedValue :: "input \<Rightarrow> number" where
  "collectedValue x =
     (if trim (input_value x) = [] \<or> rejected x then Fin 0
      else parseFloat (trim (input_value x)))"

subsection \<open>Example pages\<close>

text \<open>
  The formatter of the pages of the examples. On the whole amounts from 0 and below
  \<open>2 ^ 53\<close> it returns what a host of the locale \<open>en-US\<close> returns, the digits in groups
  of three with commas. On every other number it returns the empty text, which is not what
  such a host returns: no example formats one of them.
\<close>

definition enUS_wholeAmounts :: "number \<Rightarrow> string" where
  "enUS_wholeAmounts v =
     (case v of
        Fin q \<Rightarrow>
          if 0 \<le> q \<and> q < 2 ^ 53 \<and> of_int \<lfloor>q\<rfloor> = q then groupDigits (decimalDigits \<lfloor>q\<rfloor>)
          else []
      | _ \<Rightarrow> [])"

text \<open>
  The page of the repository's tests: a form of income and expense fields with the given
  texts, a canvas, and the script just loaded. Every field starts with the invalid marker
  set, so that the examples show the marker being cleared.
\<close>

definition budgetPage :: "string list \<Rightarrow> string list \<Rightarrow> page" where
  "budgetPage incomeTexts expenseTexts =
     \<lparr>incomeInputs =
        map (\<lambda>t. \<lparr>input_value = t,
                   classList = [''form-control'', ''income-input'', ''is-invalid'']\<rparr>)
          incomeTexts,
      expenseInputs =
        map (\<lambda>t. \<lparr>input_value = t,
                   classList = [''form-control'', ''expense-input'', ''is-invalid'']\<rparr>)
          expenseTexts,
      budgetChart = Some Context2D,
      chartInstance = None,
      charts = [],
      alerts = [],
      downloads = [],
      calls = [],
      toLocaleString = enUS_wholeAmounts\<rparr>"

definition numericPage :: page where
  "numericPage =
     budgetPage
       [''100'', ''200'', ''300'', ''400'', ''500'', ''600'',
        ''700'', ''800'', ''900'', ''1000'', ''1100'', ''1200'']
       [''50'', ''100'', ''150'', ''200'', ''250'', ''300'',
        ''350'', ''400'', ''450'', ''500'', ''550'', ''600'']"

definition mixedPage :: page where
  "mixedPage =
     budgetPage
       [''100'', '''', ''-300'', ''abc'', ''500'', ''600'',
        ''700'', ''800'', ''900'', ''1000'', ''1100'', ''1200'']
       [''50'', ''100'', ''150'', ''200'', '''', ''-250'',
        ''xyz'', ''400'', ''450'', ''500'', ''550'', ''600'']"

definition blankPage :: page where
  "blankPage =
     budgetPage
       ['''', '''', ''  '', '''', '''', '''', '''', '''', '''', '''', '''', '''']
       ['''', '''', '''', '''', '''', '''', '''', '''', '''', '''', '''', ''  '']"

text \<open>
  The configuration that \<open>renderChart\<close> builds from the object \<open>r\<close> that
  \<open>validateAndCollectData\<close> returned, on a host with the formatter \<open>format\<close>.
\<close>

definition chartConfig :: "(number \<Rightarrow> string) \<Rightarrow> collected \<Rightarrow> config" where
  "chartConfig format r =
     \<lparr>chart_type = ''bar'',
      labels = monthLabels,
      datasets =
        [\<lparr>label = ''Income'',
          data = incomeData r,
          backgroundColor = ''rgba(40, 167, 69, 0.7)'',
          borderColor = ''rgba(40, 167, 69, 1)'',
          borderWidth = 1\<rparr>,
         \<lparr>label = ''Expenses'',
          data = expenseData r,
          backgroundColor = ''rgba(220, 53, 69, 0.7)'',
          borderColor = ''rgba(220, 53, 69, 1)'',
          borderWidth = 1\<rparr>],
      responsive = True,
      y_beginAtZero = True,
      y_ticks_callback = (\<lambda>value. ''$'' @ format value),
      legend_display = True,
      legend_position = ''top'',
      tooltip_label =
        (\<lambda>context. dataset_label context @ '': $'' @ format (parsed_y context))\<rparr>"

text \<open>
  The discipline of the single chart: the chart that \<open>chartInstance\<close> refers to is in
  the store, and it is the one chart of the store that is not destroyed.
\<close>

definition singleOwner :: "page \<Rightarrow> bool" where
  "singleOwner w =
     ((\<forall>i<length (charts w). destroyed (charts w ! i) = (chartInstance w \<noteq> Some i)) \<and>
      (\<forall>a. chartInstance w = Some a \<longrightarrow> a < length (charts w)))"

text \<open>
  The discipline of the calls to the library: at no moment of the sequence are two charts
  live, and whenever the constructor is called no chart is live, by the count of the calls
  before it and in the store it finds. A page is \<open>traced\<close> when
  its calls are so, they account for the live charts of its store, and the store keeps the
  discipline of the single chart.
\<close>

definition orderly :: "libraryCall list \<Rightarrow> bool" where
  "orderly cs =
     ((\<forall>p. prefix p cs \<longrightarrow> length (liveAfter p) \<le> 1) \<and>
      (\<forall>p a seen. prefix (p @ [Chart_new a seen]) cs \<longrightarrow> seen = [] \<and> liveAfter p = []))"

definition traced :: "page \<Rightarrow> bool" where
  "traced w = (singleOwner w \<and> orderly (calls w) \<and> liveAfter (calls w) = liveCharts w)"

definition negativePage :: page where
  "negativePage =
     budgetPage
       [''-100'', ''200'', ''300'', ''400'', ''500'', ''600'',
        ''700'', ''800'', ''900'', ''1000'', ''1100'', ''1200'']
       [''50'', ''100'', ''150'', ''200'', ''250'', ''300'',
        ''350'', ''400'', ''450'', ''500'', ''550'', ''600'']"

definition specialPage :: page where
  "specialPage =
     budgetPage
       [''0x10'', ''Infinity'', '''', '''', '''', '''', '''', '''', '''', '''', '''', '''']
       ['''', '''', '''', '''', '''', '''', '''', '''', '''', '''', '''', '''']"

text \<open>
  The page of the first test with the first income written in hexadecimal, and the same page
  with digits followed by letters there.
\<close>

definition hexPage :: page where
  "hexPage =
     budgetPage
       [''0x10'', ''200'', ''300'', ''400'', ''500'', ''600'',
        ''700'', ''800'', ''900'', ''1000'', ''1100'', ''1200'']
       [''50'', ''100'', ''150'', ''200'', ''250'', ''300'',
        ''350'', ''400'', ''450'', ''500'', ''550'', ''600'']"

definition prefixPage :: page where
  "prefixPage =
     budgetPage
       [''12abc'', ''200'', ''300'', ''400'', ''500'', ''600'',
        ''700'', ''800'', ''900'', ''1000'', ''1100'', ''1200'']
       [''50'', ''100'', ''150'', ''200'', ''250'', ''300'',
        ''350'', ''400'', ''450'', ''500'', ''550'', ''600'']"

text \<open>
  The \<open>toBase64Image\<close> of the mock chart of the repository's tests.
\<close>

definition mockImage :: "chart \<Rightarrow> string" where
  "mockImage c = ''data:image/png;base64,mockImageData''"

section \<open>Auxiliary facts\<close>

subsection \<open>The builtins on the texts of the examples\<close>

lemma trim_examples:
  "trim ''100'' = ''100''"
  "trim ''200'' = ''200''"
  "trim ''300'' = ''300''"
  "trim ''400'' = ''400''"
  "trim ''500'' = ''500''"
  "trim ''600'' = ''600''"
  "trim ''700'' = ''700''"
  "trim ''800'' = ''800''"
  "trim ''900'' = ''900''"
  "trim ''1000'' = ''1000''"
  "trim ''1100'' = ''1100''"
  "trim ''1200'' = ''1200''"
  "trim ''50'' = ''50''"
  "trim ''150'' = ''150''"
  "trim ''250'' = ''250''"
  "trim ''350'' = ''350''"
  "trim ''450'' = ''450''"
  "trim ''550'' = ''550''"
  "trim '''' = []"
  "trim ''  '' = []"
  "trim ''-300'' = ''-300''"
  "trim ''abc'' = ''abc''"
  "trim ''-250'' = ''-250''"
  "trim ''xyz'' = ''xyz''"
  "trim ''-100'' = ''-100''"
  "trim ''0x10'' = ''0x10''"
  "trim ''Infinity'' = ''Infinity''"
  "trim '' 42 '' = ''42''"
  "trim ''12abc'' = ''12abc''"
  by code_simp+

lemma isNaN_examples:
  "isNaN ''100'' = False"
  "isNaN ''200'' = False"
  "isNaN ''300'' = False"
  "isNaN ''400'' = False"
  "isNaN ''500'' = False"
  "isNaN ''600'' = False"
  "isNaN ''700'' = False"
  "isNaN ''800'' = False"
  "isNaN ''900'' = False"
  "isNaN ''1000'' = False"
  "isNaN ''1100'' = False"
  "isNaN ''1200'' = False"
  "isNaN ''50'' = False"
  "isNaN ''150'' = False"
  "isNaN ''250'' = False"
  "isNaN ''350'' = False"
  "isNaN ''450'' = False"
  "isNaN ''550'' = False"
  "isNaN ''-300'' = False"
  "isNaN ''abc'' = True"
  "isNaN ''-250'' = False"
  "isNaN ''xyz'' = True"
  "isNaN ''-100'' = False"
  "isNaN ''0x10'' = False"
  "isNaN ''Infinity'' = False"
  "isNaN ''42'' = False"
  "isNaN ''12abc'' = True"
  "isNaN [] = False"
  by code_simp+

lemma parseFloat_examples:
  "parseFloat ''100'' = Fin 100"
  "parseFloat ''200'' = Fin 200"
  "parseFloat ''300'' = Fin 300"
  "parseFloat ''400'' = Fin 400"
  "parseFloat ''500'' = Fin 500"
  "parseFloat ''600'' = Fin 600"
  "parseFloat ''700'' = Fin 700"
  "parseFloat ''800'' = Fin 800"
  "parseFloat ''900'' = Fin 900"
  "parseFloat ''1000'' = Fin 1000"
  "parseFloat ''1100'' = Fin 1100"
  "parseFloat ''1200'' = Fin 1200"
  "parseFloat ''50'' = Fin 50"
  "parseFloat ''150'' = Fin 150"
  "parseFloat ''250'' = Fin 250"
  "parseFloat ''350'' = Fin 350"
  "parseFloat ''450'' = Fin 450"
  "parseFloat ''550'' = Fin 550"
  "parseFloat ''-300'' = Fin (- 300)"
  "parseFloat ''abc'' = NaN"
  "parseFloat ''-250'' = Fin (- 250)"
  "parseFloat ''xyz'' = NaN"
  "parseFloat ''-100'' = Fin (- 100)"
  "parseFloat ''0x10'' = Fin 0"
  "parseFloat ''Infinity'' = PosInfinity"
  "parseFloat ''42'' = Fin 42"
  "parseFloat ''12abc'' = Fin 12"
  by code_simp+

lemma StringToNumber_examples:
  "StringToNumber ''100'' = Fin 100"
  "StringToNumber ''200'' = Fin 200"
  "StringToNumber ''300'' = Fin 300"
  "StringToNumber ''400'' = Fin 400"
  "StringToNumber ''500'' = Fin 500"
  "StringToNumber ''600'' = Fin 600"
  "StringToNumber ''700'' = Fin 700"
  "StringToNumber ''800'' = Fin 800"
  "StringToNumber ''900'' = Fin 900"
  "StringToNumber ''1000'' = Fin 1000"
  "StringToNumber ''1100'' = Fin 1100"
  "StringToNumber ''1200'' = Fin 1200"
  "StringToNumber ''50'' = Fin 50"
  "StringToNumber ''150'' = Fin 150"
  "StringToNumber ''250'' = Fin 250"
  "StringToNumber ''350'' = Fin 350"
  "StringToNumber ''450'' = Fin 450"
  "StringToNumber ''550'' = Fin 550"
  "StringToNumber ''-300'' = Fin (- 300)"
  "StringToNumber ''abc'' = NaN"
  "StringToNumber ''-250'' = Fin (- 250)"
  "StringToNumber ''xyz'' = NaN"
  "StringToNumber ''-100'' = Fin (- 100)"
  "StringToNumber ''0x10'' = Fin 16"
  "StringToNumber ''Infinity'' = PosInfinity"
  "StringToNumber ''42'' = Fin 42"
  "StringToNumber ''12abc'' = NaN"
  "StringToNumber [] = Fin 0"
  by code_simp+



subsection \<open>The two loops in closed form\<close>

lemma incomeCallback_eq:
  "incomeCallback x r =
     (validated x,
      r\<lparr>isValid := isValid r \<and> \<not> rejected x, incomeData := incomeData r @ [collectedValue x]\<rparr>)"
  by (simp add: incomeCallback_def validated_def collectedValue_def rejected_def Let_def)

lemma expenseCallback_eq:
  "expenseCallback x r =
     (validated x,
      r\<lparr>isValid := isValid r \<and> \<not> rejected x, expenseData := expenseData r @ [collectedValue x]\<rparr>)"
  by (simp add: expenseCallback_def validated_def collectedValue_def rejected_def Let_def)

lemma forEach_incomeCallback:
  "forEach incomeCallback xs r =
     (map validated xs,
      r\<lparr>isValid := isValid r \<and> (\<forall>x\<in>set xs. \<not> rejected x),
        incomeData := incomeData r @ map collectedValue xs\<rparr>)"
proof (induction xs arbitrary: r)
  case Nil
  show ?case by simp
next
  case (Cons x xs)
  show ?case by (simp add: Cons.IH) (simp add: incomeCallback_eq conj_assoc)
qed

lemma forEach_expenseCallback:
  "forEach expenseCallback xs r =
     (map validated xs,
      r\<lparr>isValid := isValid r \<and> (\<forall>x\<in>set xs. \<not> rejected x),
        expenseData := expenseData r @ map collectedValue xs\<rparr>)"
proof (induction xs arbitrary: r)
  case Nil
  show ?case by simp
next
  case (Cons x xs)
  show ?case by (simp add: Cons.IH) (simp add: expenseCallback_eq conj_assoc)
qed

lemma validateAndCollectData_eq:
  "validateAndCollectData w =
     (\<lparr>isValid = ((\<forall>x\<in>set (incomeInputs w). \<not> rejected x) \<and>
                  (\<forall>x\<in>set (expenseInputs w). \<not> rejected x)),
       incomeData = map collectedValue (incomeInputs w),
       expenseData = map collectedValue (expenseInputs w)\<rparr>,
      w\<lparr>incomeInputs := map validated (incomeInputs w),
        expenseInputs := map validated (expenseInputs w)\<rparr>)"
  by (simp add: validateAndCollectData_def forEach_incomeCallback forEach_expenseCallback)

lemma input_value_validated [simp]: "input_value (validated x) = input_value x"
  by (simp add: validated_def classList_add_def classList_remove_def)

lemma rejected_validated [simp]: "rejected (validated x) = rejected x"
  by (simp add: rejected_def)

lemma collectedValue_validated [simp]: "collectedValue (validated x) = collectedValue x"
  by (simp add: collectedValue_def)

lemma validated_idem [simp]: "validated (validated x) = validated x"
  by (simp add: validated_def classList_add_def classList_remove_def rejected_def)

lemma contains_validated [simp]:
  "classList_contains ''is-invalid'' (validated x) = rejected x"
  by (simp add: validated_def classList_add_def classList_remove_def classList_contains_def)

lemmas page_eval =
  budgetPage_def validateAndCollectData_eq rejected_def validated_def collectedValue_def
  classList_add_def classList_remove_def classList_contains_def
  trim_examples isNaN_examples parseFloat_examples

lemma numericPage_facts:
  "budgetChart numericPage = Some Context2D" "chartInstance numericPage = None"
  "charts numericPage = []" "alerts numericPage = []" "downloads numericPage = []"
  "calls numericPage = []" "toLocaleString numericPage = enUS_wholeAmounts"
  "length (incomeInputs numericPage) = 12" "length (expenseInputs numericPage) = 12"
  by (simp_all add: numericPage_def budgetPage_def)

lemma numericPage_collected:
  "fst (validateAndCollectData numericPage) =
     \<lparr>isValid = True,
      incomeData = [Fin 100, Fin 200, Fin 300, Fin 400, Fin 500, Fin 600,
                    Fin 700, Fin 800, Fin 900, Fin 1000, Fin 1100, Fin 1200],
      expenseData = [Fin 50, Fin 100, Fin 150, Fin 200, Fin 250, Fin 300,
                     Fin 350, Fin 400, Fin 450, Fin 500, Fin 550, Fin 600]\<rparr>"
  by (simp add: numericPage_def page_eval)

lemma negativePage_facts:
  "chartInstance negativePage = None" "charts negativePage = []" "alerts negativePage = []"
  by (simp_all add: negativePage_def budgetPage_def)

lemma negativePage_collected: "\<not> isValid (fst (validateAndCollectData negativePage))"
  by (simp add: negativePage_def page_eval)

subsection \<open>What renderChart does in each of its three cases\<close>

lemma validateAndCollectData_frame [simp]:
  "chartInstance (snd (validateAndCollectData w)) = chartInstance w"
  "charts (snd (validateAndCollectData w)) = charts w"
  "alerts (snd (validateAndCollectData w)) = alerts w"
  "downloads (snd (validateAndCollectData w)) = downloads w"
  "budgetChart (snd (validateAndCollectData w)) = budgetChart w"
  "calls (snd (validateAndCollectData w)) = calls w"
  "toLocaleString (snd (validateAndCollectData w)) = toLocaleString w"
  by (simp_all add: validateAndCollectData_eq)

lemma renderChart_invalid:
  assumes "\<not> isValid (fst (validateAndCollectData w))"
  shows "renderChart w =
           (None, (snd (validateAndCollectData w))
                    \<lparr>alerts := alerts w @
                       [''Please fix the validation errors before updating the chart.'']\<rparr>)"
proof (cases "validateAndCollectData w")
  case (Pair r w1)
  with assms have "\<not> isValid r" by simp
  moreover from Pair have "alerts w1 = alerts w"
    using validateAndCollectData_frame(3) [of w] by simp
  ultimately show ?thesis using Pair by (simp add: renderChart_def alert_def)
qed

lemma renderChart_no_canvas:
  assumes "isValid (fst (validateAndCollectData w))" and "budgetChart w = None"
  shows "renderChart w = (Some TypeError, snd (validateAndCollectData w))"
proof (cases "validateAndCollectData w")
  case (Pair r w1)
  with assms(1) have "isValid r" by simp
  moreover from Pair assms(2) have "budgetChart w1 = None"
    using validateAndCollectData_frame(5) [of w] by simp
  ultimately show ?thesis using Pair by (simp add: renderChart_def)
qed

lemma renderChart_valid:
  assumes "isValid (fst (validateAndCollectData w))" and "budgetChart w = Some c"
  shows "renderChart w =
           (None, (snd (validateAndCollectData w))
                    \<lparr>charts :=
                       (case chartInstance w of
                          None \<Rightarrow> charts w
                        | Some a \<Rightarrow> (charts w)[a := (charts w ! a)\<lparr>destroyed := True\<rparr>]) @
                       [\<lparr>ctx = c,
                         chart_config =
                           chartConfig (toLocaleString w) (fst (validateAndCollectData w)),
                         destroyed = False\<rparr>],
                      chartInstance := Some (length (charts w)),
                      calls :=
                        calls w @
                        (case chartInstance w of None \<Rightarrow> [] | Some a \<Rightarrow> [Chart_destroy a]) @
                        [Chart_new (length (charts w))
                           (liveCharts
                              (case chartInstance w of None \<Rightarrow> w | Some a \<Rightarrow> destroy a w))]\<rparr>)"
proof (cases "validateAndCollectData w")
  case (Pair r w1)
  with assms(1) have valid: "isValid r" by simp
  from Pair assms(2) have canvas: "budgetChart w1 = Some c"
    using validateAndCollectData_frame(5) [of w] by simp
  from Pair have same: "chartInstance w1 = chartInstance w" "charts w1 = charts w"
    "calls w1 = calls w"
    using validateAndCollectData_frame(1,2,6) [of w] by simp_all
  show ?thesis
  proof (cases "chartInstance w")
    case None
    with Pair valid canvas same show ?thesis
      by (simp add: renderChart_def new_Chart_def chartConfig_def liveCharts_def)
  next
    case (Some a)
    with Pair valid canvas same show ?thesis
      by (simp add: renderChart_def new_Chart_def destroy_def chartConfig_def liveCharts_def)
  qed
qed

lemma renderChart_frame [simp]:
  "downloads (snd (renderChart w)) = downloads w"
  "budgetChart (snd (renderChart w)) = budgetChart w"
  "incomeInputs (snd (renderChart w)) = map validated (incomeInputs w)"
  "expenseInputs (snd (renderChart w)) = map validated (expenseInputs w)"
  "toLocaleString (snd (renderChart w)) = toLocaleString w"
proof -
  consider "\<not> isValid (fst (validateAndCollectData w))"
    | "isValid (fst (validateAndCollectData w))" "budgetChart w = None"
    | c where "isValid (fst (validateAndCollectData w))" "budgetChart w = Some c"
    by (cases "budgetChart w") auto
  then have "downloads (snd (renderChart w)) = downloads w \<and>
    budgetChart (snd (renderChart w)) = budgetChart w \<and>
    incomeInputs (snd (renderChart w)) = map validated (incomeInputs w) \<and>
    expenseInputs (snd (renderChart w)) = map validated (expenseInputs w) \<and>
    toLocaleString (snd (renderChart w)) = toLocaleString w"
  proof cases
    case 1
    then show ?thesis by (simp add: renderChart_invalid) (simp add: validateAndCollectData_eq)
  next
    case 2
    then show ?thesis by (simp add: renderChart_no_canvas) (simp add: validateAndCollectData_eq)
  next
    case 3
    then show ?thesis by (simp add: renderChart_valid) (simp add: validateAndCollectData_eq)
  qed
  then show "downloads (snd (renderChart w)) = downloads w"
    "budgetChart (snd (renderChart w)) = budgetChart w"
    "incomeInputs (snd (renderChart w)) = map validated (incomeInputs w)"
    "expenseInputs (snd (renderChart w)) = map validated (expenseInputs w)"
    "toLocaleString (snd (renderChart w)) = toLocaleString w"
    by simp_all
qed

lemma collected_after_renderChart [simp]:
  "fst (validateAndCollectData (snd (renderChart w))) = fst (validateAndCollectData w)"
  by (simp add: validateAndCollectData_eq)

subsection \<open>The single chart\<close>

lemma filter_eq_upt: "a < n \<Longrightarrow> filter (\<lambda>i. a = i) [0..<n] = [a]"
proof (induction n)
  case 0
  then show ?case by simp
next
  case (Suc n)
  show ?case
  proof (cases "a = n")
    case True
    have "filter (\<lambda>i. n = i) [0..<n] = []" by (simp add: filter_empty_conv)
    with True show ?thesis by simp
  next
    case False
    with Suc have "filter (\<lambda>i. a = i) [0..<n] = [a]" by simp
    with False show ?thesis by simp
  qed
qed

lemma liveCharts_singleOwner:
  assumes "singleOwner w"
  shows "liveCharts w = (case chartInstance w of None \<Rightarrow> [] | Some a \<Rightarrow> [a])"
proof -
  have "liveCharts w = filter (\<lambda>i. chartInstance w = Some i) [0..<length (charts w)]"
    unfolding liveCharts_def using assms by (intro filter_cong) (auto simp: singleOwner_def)
  also have "\<dots> = (case chartInstance w of None \<Rightarrow> [] | Some a \<Rightarrow> [a])"
  proof (cases "chartInstance w")
    case None
    then show ?thesis by simp
  next
    case (Some a)
    with assms have "a < length (charts w)" by (simp add: singleOwner_def)
    with Some show ?thesis by (simp add: filter_eq_upt)
  qed
  finally show ?thesis .
qed

lemma singleOwner_loaded: "loaded w \<Longrightarrow> singleOwner w"
  by (simp add: loaded_def singleOwner_def)

lemma singleOwner_frame:
  "charts w' = charts w \<Longrightarrow> chartInstance w' = chartInstance w \<Longrightarrow> singleOwner w' = singleOwner w"
  by (simp add: singleOwner_def)

lemma singleOwner_renderChart:
  assumes "singleOwner w"
  shows "singleOwner (snd (renderChart w))"
proof (cases "isValid (fst (validateAndCollectData w))")
  case False
  then show ?thesis using assms
    by (simp add: renderChart_invalid singleOwner_def)
next
  case True
  show ?thesis
  proof (cases "budgetChart w")
    case None
    with True show ?thesis using assms
      by (simp add: renderChart_no_canvas singleOwner_def)
  next
    case (Some c)
    show ?thesis
    proof (cases "chartInstance w")
      case None
      with True Some assms show ?thesis
        by (auto simp: renderChart_valid singleOwner_def nth_append)
    next
      case (Some a)
      with True \<open>budgetChart w = Some c\<close> assms show ?thesis
        by (auto simp: renderChart_valid singleOwner_def nth_append nth_list_update)
    qed
  qed
qed

lemma singleOwner_dispatch:
  assumes "singleOwner w"
  shows "singleOwner (dispatch tb e w)"
proof (cases e)
  case DownloadChartBtn_click
  have "singleOwner (downloadChartBtn_click tb w) = singleOwner w"
    by (rule singleOwner_frame)
       (simp_all add: downloadChartBtn_click_def alert_def split: option.splits)
  with assms DownloadChartBtn_click show ?thesis by simp
next
  case (IncomeInput_edit i t)
  with assms show ?thesis by (simp add: singleOwner_def)
next
  case (ExpenseInput_edit i t)
  with assms show ?thesis by (simp add: singleOwner_def)
qed (simp_all add: singleOwner_renderChart [OF assms])

lemma singleOwner_run: "singleOwner w \<Longrightarrow> singleOwner (run tb es w)"
  by (induction es arbitrary: w) (simp_all add: singleOwner_dispatch)

text \<open>
  The store between the two calls of a render: once the chart that \<open>chartInstance\<close>
  refers to is destroyed, no chart is live.
\<close>

lemma liveCharts_destroyed:
  assumes "singleOwner w"
  shows "liveCharts (case chartInstance w of None \<Rightarrow> w | Some a \<Rightarrow> destroy a w) = []"
proof (cases "chartInstance w")
  case None
  with liveCharts_singleOwner [OF assms] show ?thesis by simp
next
  case (Some a)
  with assms have "a < length (charts w)"
    and "\<forall>i<length (charts w). i \<noteq> a \<longrightarrow> destroyed (charts w ! i)"
    by (auto simp: singleOwner_def)
  with Some show ?thesis
    by (simp add: liveCharts_def destroy_def filter_empty_conv nth_list_update)
qed

lemma liveAfter_Nil [simp]: "liveAfter [] = []"
  by (simp add: liveAfter_def)

lemma liveAfter_snoc [simp]: "liveAfter (cs @ [c]) = afterCall (liveAfter cs) c"
  by (simp add: liveAfter_def)

lemma orderly_Nil: "orderly []"
  by (simp add: orderly_def)

lemma orderly_destroy:
  assumes "orderly cs"
  shows "orderly (cs @ [Chart_destroy a])"
proof -
  from assms have "length (liveAfter cs) \<le> 1" by (simp add: orderly_def)
  with length_removeAll_less_eq [of a "liveAfter cs"]
  have "length (removeAll a (liveAfter cs)) \<le> 1" by (rule le_trans)
  then have "length (liveAfter (cs @ [Chart_destroy a])) \<le> 1" by simp
  with assms show ?thesis
    unfolding orderly_def by (auto simp del: liveAfter_snoc)
qed

lemma orderly_new:
  assumes "orderly cs" and "liveAfter cs = []"
  shows "orderly (cs @ [Chart_new b []])"
proof -
  from assms(2) have "length (liveAfter (cs @ [Chart_new b []])) \<le> 1" by simp
  with assms show ?thesis
    unfolding orderly_def by (auto simp del: liveAfter_snoc)
qed

lemma traced_loaded: "loaded w \<Longrightarrow> traced w"
  by (simp add: traced_def singleOwner_loaded) (simp add: loaded_def liveCharts_def orderly_Nil)

lemma traced_frame:
  assumes "charts w' = charts w" and "chartInstance w' = chartInstance w"
    and "calls w' = calls w"
  shows "traced w' = traced w"
  using assms singleOwner_frame [OF assms(1,2)] by (simp add: traced_def liveCharts_def)

lemma traced_renderChart:
  assumes "traced w"
  shows "traced (snd (renderChart w))"
proof -
  from assms have own: "singleOwner w" and ord: "orderly (calls w)"
    and live: "liveAfter (calls w) = liveCharts w"
    by (simp_all add: traced_def)
  have own': "singleOwner (snd (renderChart w))"
    using own by (rule singleOwner_renderChart)
  consider "\<not> isValid (fst (validateAndCollectData w))"
    | "isValid (fst (validateAndCollectData w))" "budgetChart w = None"
    | c where "isValid (fst (validateAndCollectData w))" "budgetChart w = Some c"
    by (cases "budgetChart w") auto
  then show ?thesis
  proof cases
    case 1
    have "traced (snd (renderChart w)) = traced w"
      by (rule traced_frame) (simp_all add: renderChart_invalid [OF 1])
    with assms show ?thesis by simp
  next
    case 2
    have "traced (snd (renderChart w)) = traced w"
      by (rule traced_frame) (simp_all add: renderChart_no_canvas [OF 2])
    with assms show ?thesis by simp
  next
    case 3
    note render = renderChart_valid [OF 3, unfolded liveCharts_destroyed [OF own]]
    let ?d = "case chartInstance w of None \<Rightarrow> [] | Some a \<Rightarrow> [Chart_destroy a]"
    have none: "liveAfter (calls w @ ?d) = []"
      using live liveCharts_singleOwner [OF own] by (cases "chartInstance w") simp_all
    have "orderly (calls w @ ?d)"
      using ord by (cases "chartInstance w") (simp_all add: orderly_destroy)
    then have "orderly ((calls w @ ?d) @ [Chart_new (length (charts w)) []])"
      using none by (rule orderly_new)
    then have ord': "orderly (calls (snd (renderChart w)))"
      by (simp add: render)
    have "liveAfter ((calls w @ ?d) @ [Chart_new (length (charts w)) []]) = [length (charts w)]"
      using none by (simp only: liveAfter_snoc afterCall.simps append_Nil)
    then have "liveAfter (calls (snd (renderChart w))) = [length (charts w)]"
      by (simp add: render)
    moreover have "liveCharts (snd (renderChart w)) = [length (charts w)]"
      using liveCharts_singleOwner [OF own'] by (simp add: render)
    ultimately show ?thesis using own' ord' by (simp add: traced_def)
  qed
qed

lemma traced_dispatch:
  assumes "traced w"
  shows "traced (dispatch tb e w)"
proof (cases e)
  case DownloadChartBtn_click
  have "traced (downloadChartBtn_click tb w) = traced w"
    by (rule traced_frame)
       (simp_all add: downloadChartBtn_click_def alert_def split: option.splits)
  with assms DownloadChartBtn_click show ?thesis by simp
next
  case (IncomeInput_edit i t)
  have "traced (dispatch tb e w) = traced w"
    by (rule traced_frame) (simp_all add: IncomeInput_edit)
  with assms show ?thesis by simp
next
  case (ExpenseInput_edit i t)
  have "traced (dispatch tb e w) = traced w"
    by (rule traced_frame) (simp_all add: ExpenseInput_edit)
  with assms show ?thesis by simp
qed (simp_all add: traced_renderChart [OF assms])

lemma traced_run: "traced w \<Longrightarrow> traced (run tb es w)"
  by (induction es arbitrary: w) (simp_all add: traced_dispatch)

lemma orderly_take:
  assumes "orderly cs"
  shows "\<forall>n\<le>length cs. length (liveAfter (take n cs)) \<le> 1"
    and "\<forall>n<length cs. \<forall>a seen.
           cs ! n = Chart_new a seen \<longrightarrow> seen = [] \<and> liveAfter (take n cs) = []"
proof -
  show "\<forall>n\<le>length cs. length (liveAfter (take n cs)) \<le> 1"
    using assms by (simp add: orderly_def take_is_prefix)
  show "\<forall>n<length cs. \<forall>a seen.
           cs ! n = Chart_new a seen \<longrightarrow> seen = [] \<and> liveAfter (take n cs) = []"
  proof (intro allI impI)
    fix n a seen
    assume "n < length cs" and "cs ! n = Chart_new a seen"
    then have "take (Suc n) cs = take n cs @ [Chart_new a seen]"
      by (simp add: take_Suc_conv_app_nth)
    then have "prefix (take n cs @ [Chart_new a seen]) cs"
      by (metis take_is_prefix)
    with assms show "seen = [] \<and> liveAfter (take n cs) = []"
      unfolding orderly_def by blast
  qed
qed

lemma chartInstance_renderChart:
  assumes "chartInstance w \<noteq> None"
  shows "chartInstance (snd (renderChart w)) \<noteq> None"
proof (cases "isValid (fst (validateAndCollectData w))")
  case False
  with assms show ?thesis by (simp add: renderChart_invalid)
next
  case True
  show ?thesis
  proof (cases "budgetChart w")
    case None
    with True assms show ?thesis by (simp add: renderChart_no_canvas)
  next
    case (Some c)
    with True show ?thesis by (simp add: renderChart_valid)
  qed
qed

lemma chartInstance_dispatch:
  "chartInstance w \<noteq> None \<Longrightarrow> chartInstance (dispatch tb e w) \<noteq> None"
  by (cases e) (auto simp: chartInstance_renderChart downloadChartBtn_click_def alert_def)

lemma chartInstance_run:
  "chartInstance w \<noteq> None \<Longrightarrow> chartInstance (run tb es w) \<noteq> None"
proof (induction es arbitrary: w)
  case Nil
  then show ?case by simp
next
  case (Cons e es)
  from Cons.prems have "chartInstance (dispatch tb e w) \<noteq> None"
    by (rule chartInstance_dispatch)
  then have "chartInstance (run tb es (dispatch tb e w)) \<noteq> None"
    by (rule Cons.IH)
  then show ?case by simp
qed

subsection \<open>The two parsers\<close>

lemma leadingLength_zero_iff:
  assumes "[] \<notin> set ws"
  shows "leadingLength ws s = 0 \<longleftrightarrow> (\<forall>w\<in>set ws. \<not> prefix w s)"
proof (cases "find (\<lambda>w. prefix w s) ws")
  case None
  then have "\<forall>w\<in>set ws. \<not> prefix w s" by (simp add: find_None_iff)
  with None show ?thesis by (simp add: leadingLength_def)
next
  case (Some w)
  then have "w \<in> set ws" and "prefix w s"
    by (auto simp: find_Some_iff)
  with assms Some show ?thesis by (auto simp: leadingLength_def)
qed

lemma stripLeading_fixed: "leadingLength ws s = 0 \<Longrightarrow> stripLeading ws s = s"
  by (simp add: stripLeading.simps)

lemma leadingLength_stripLeading: "leadingLength ws (stripLeading ws s) = 0"
proof (induction ws s rule: stripLeading.induct)
  case (1 ws s)
  show ?case
  proof (cases "leadingLength ws s = 0")
    case True
    then show ?thesis by (simp add: stripLeading_fixed)
  next
    case False
    with "1.IH" show ?thesis by (subst stripLeading.simps) simp
  qed
qed

lemma stripLeading_suffix: "suffix (stripLeading ws s) s"
proof (induction ws s rule: stripLeading.induct)
  case (1 ws s)
  show ?case
  proof (cases "leadingLength ws s = 0")
    case True
    then show ?thesis by (simp add: stripLeading_fixed)
  next
    case False
    with "1.IH" have "suffix (stripLeading ws (drop (leadingLength ws s) s)) (drop (leadingLength ws s) s)"
      by simp
    moreover have "suffix (drop (leadingLength ws s) s) s" by (rule suffix_drop)
    ultimately have "suffix (stripLeading ws (drop (leadingLength ws s) s)) s"
      by (rule suffix_order.trans)
    with False show ?thesis by (subst stripLeading.simps) simp
  qed
qed

lemma whiteSpace_nonempty: "[] \<notin> set whiteSpace"
  by (simp add: whiteSpace_def)

lemma trimEnd_prefix: "prefix (trimEnd s) s"
proof -
  have "suffix (stripLeading (map rev whiteSpace) (rev s)) (rev s)"
    by (rule stripLeading_suffix)
  then show ?thesis by (simp add: trimEnd_def suffix_to_prefix)
qed

lemma trimStart_trimEnd:
  assumes "leadingLength whiteSpace s = 0"
  shows "trimStart (trimEnd s) = trimEnd s"
proof -
  have "\<not> prefix w (trimEnd s)" if "w \<in> set whiteSpace" for w
  proof
    assume "prefix w (trimEnd s)"
    then have "prefix w s" using trimEnd_prefix by (rule prefix_order.trans)
    with that assms show False
      by (simp add: leadingLength_zero_iff [OF whiteSpace_nonempty])
  qed
  then have "leadingLength whiteSpace (trimEnd s) = 0"
    by (simp add: leadingLength_zero_iff [OF whiteSpace_nonempty])
  then show ?thesis by (simp add: trimStart_def stripLeading_fixed)
qed

lemma trimStart_trim [simp]: "trimStart (trim s) = trim s"
proof -
  have "leadingLength whiteSpace (trimStart s) = 0"
    by (simp add: trimStart_def leadingLength_stripLeading)
  then show ?thesis by (simp add: trim_def trimStart_trimEnd)
qed

lemma trimEnd_idem: "trimEnd (trimEnd s) = trimEnd s"
  by (simp add: trimEnd_def stripLeading_fixed leadingLength_stripLeading)

lemma trim_trim [simp]: "trim (trim s) = trim s"
proof -
  have "trim (trim s) = trimEnd (trimStart (trim s))" by (simp add: trim_def)
  also have "\<dots> = trimEnd (trim s)" by simp
  also have "\<dots> = trim s" by (simp add: trim_def trimEnd_idem)
  finally show ?thesis .
qed

text \<open>
  On a trimmed text that \<open>Number\<close> takes for a number and that is not a literal with a
  radix prefix, \<open>parseFloat\<close> gives that number.
\<close>

lemma parseFloat_eq_StringToNumber:
  assumes "\<not> isNaN (trim s)" and "trim s \<noteq> []"
    and "nonDecimalIntegerLiteral (trim s) = None"
  shows "parseFloat (trim s) = StringToNumber (trim s)"
  using assms
  by (auto simp: isNaN_def StringToNumber_def parseFloat_def split: option.splits if_splits)

lemma radixOfPrefix_cases:
  assumes "radixOfPrefix p \<noteq> 0"
  shows "p \<in> set ''bBoOxX''" and "0 \<le> radixOfPrefix p"
  using assms by (auto simp: radixOfPrefix_def split: if_splits)

lemma strDecimalLiteral_radix_prefix:
  assumes "p \<in> set ''bBoOxX''"
  shows "strDecimalLiteral (CHR ''0'' # p # ds) = Some (Fin 0, p # ds)"
proof -
  from assms have np: "\<not> isDecimalDigit p" and nd: "p \<noteq> CHR ''.''" and ne: "p \<notin> set ''eE''"
    by (auto simp: isDecimalDigit_def)
  have d0: "isDecimalDigit CHR ''0''" by (simp add: isDecimalDigit_def)
  have ex: "exponentPart (p # ds) = (0, p # ds)"
    using ne by (simp add: exponentPart_def)
  have z: "roundToDouble False 0 1 = Fin 0" by (simp add: roundToDouble_def)
  have v: "digitsValue 10 ''0'' = 0" by (simp add: digitsValue_def digitValue_def)
  have "strUnsignedDecimalLiteral False (CHR ''0'' # p # ds) = Some (Fin 0, p # ds)"
    using np nd d0 by (simp add: strUnsignedDecimalLiteral_def ex z v)
  then show ?thesis by (simp add: strDecimalLiteral_def)
qed

lemma parseFloat_radix_literal:
  assumes "nonDecimalIntegerLiteral t = Some n" and "trimStart t = t"
  shows "parseFloat t = Fin 0"
  using assms
proof (induction t rule: nonDecimalIntegerLiteral.induct)
  case (1 z p ds)
  then have "z = CHR ''0''" and "radixOfPrefix p \<noteq> 0"
    by (simp_all split: if_splits)
  then have "strDecimalLiteral (z # p # ds) = Some (Fin 0, p # ds)"
    using strDecimalLiteral_radix_prefix [OF radixOfPrefix_cases(1), of p ds] by simp
  with "1.prems"(2) show ?case by (simp add: parseFloat_def)
qed simp_all

lemma digits_nonneg:
  "list_all (\<lambda>d. 0 \<le> digitValue d) ''01''"
  "list_all (\<lambda>d. 0 \<le> digitValue d) ''01234567''"
  "list_all (\<lambda>d. 0 \<le> digitValue d) ''0123456789abcdefABCDEF''"
  by code_simp+

lemma digitsOfRadix_nonneg: "list_all (\<lambda>d. 0 \<le> digitValue d) (digitsOfRadix radix)"
proof -
  consider "digitsOfRadix radix = ''01''" | "digitsOfRadix radix = ''01234567''"
    | "digitsOfRadix radix = ''0123456789abcdefABCDEF''"
    unfolding digitsOfRadix_def by (cases "radix = 2"; cases "radix = 8") simp_all
  then show ?thesis
    by cases (simp_all only: digits_nonneg)
qed

lemma foldl_digits_nonneg:
  assumes "0 \<le> radix"
  shows "0 \<le> n \<Longrightarrow> list_all (\<lambda>d. 0 \<le> digitValue d) ds \<Longrightarrow>
         0 \<le> foldl (\<lambda>n d. radix * n + digitValue d) n ds"
proof (induction ds arbitrary: n)
  case Nil
  then show ?case by simp
next
  case (Cons d ds)
  from Cons.prems assms have "0 \<le> radix * n + digitValue d" by simp
  with Cons show ?case by simp
qed

lemma nonDecimalIntegerLiteral_nonneg:
  assumes "nonDecimalIntegerLiteral t = Some n"
  shows "0 \<le> n"
  using assms
proof (induction t rule: nonDecimalIntegerLiteral.induct)
  case (1 z p ds)
  then have radix: "radixOfPrefix p \<noteq> 0"
    and ds: "list_all (\<lambda>d. d \<in> set (digitsOfRadix (radixOfPrefix p))) ds"
    and n: "n = digitsValue (radixOfPrefix p) ds"
    by (simp_all split: if_splits)
  from ds digitsOfRadix_nonneg [of "radixOfPrefix p"]
  have "list_all (\<lambda>d. 0 \<le> digitValue d) ds"
    unfolding list_all_iff by blast
  with radixOfPrefix_cases(2) [OF radix] show ?case
    unfolding n digitsValue_def by (intro foldl_digits_nonneg) simp_all
qed simp_all

lemma roundHalfEven_nonneg: "0 \<le> x \<Longrightarrow> 0 < y \<Longrightarrow> 0 \<le> roundHalfEven x y"
  by (simp add: roundHalfEven_def Let_def pos_imp_zdiv_nonneg_iff)

lemma roundToDouble_nonneg:
  assumes "0 \<le> a"
  shows "\<not> lt (roundToDouble False a 1) (Fin 0)"
proof -
  have n: "0 \<le> roundHalfEven (fst (scale2 s a 1)) (snd (scale2 s a 1))" for s
    using assms by (intro roundHalfEven_nonneg) (simp_all add: scale2_def)
  have v: "0 \<le> (of_int (fst (scale2 s m 1)) :: rat) / of_int (snd (scale2 s m 1))"
    if "0 \<le> m" for s m
    using that by (simp add: scale2_def)
  show ?thesis
    using n v by (simp add: roundToDouble_def Let_def split_beta not_less)
qed

text \<open>
  So the test of the callbacks is a test on the number that \<open>Number\<close> takes the text for.
\<close>

lemma lt_parseFloat_iff:
  assumes "\<not> isNaN (trim s)" and "trim s \<noteq> []"
  shows "lt (parseFloat (trim s)) (Fin 0) = lt (StringToNumber (trim s)) (Fin 0)"
proof (cases "nonDecimalIntegerLiteral (trim s)")
  case None
  with assms show ?thesis by (simp add: parseFloat_eq_StringToNumber)
next
  case (Some n)
  then have "parseFloat (trim s) = Fin 0" by (rule parseFloat_radix_literal) simp
  moreover from Some assms(2) have "StringToNumber (trim s) = roundToDouble False n 1"
    by (simp add: StringToNumber_def)
  moreover from Some have "0 \<le> n" by (rule nonDecimalIntegerLiteral_nonneg)
  ultimately show ?thesis by (simp add: roundToDouble_nonneg)
qed

lemma rejected_iff_Number:
  "rejected x =
     (trim (input_value x) \<noteq> [] \<and>
      (isNaN (trim (input_value x)) \<or> lt (StringToNumber (trim (input_value x))) (Fin 0)))"
  using lt_parseFloat_iff [of "input_value x"] by (auto simp: rejected_def)

text \<open>
  The number pushed for a text that \<open>Number\<close> takes for a number not below zero.
\<close>

lemma collectedValue_Number:
  assumes "\<not> isNaN (trim (input_value x))"
    and "\<not> lt (StringToNumber (trim (input_value x))) (Fin 0)"
  shows "collectedValue x =
           (if nonDecimalIntegerLiteral (trim (input_value x)) = None
            then StringToNumber (trim (input_value x)) else Fin 0)"
proof (cases "trim (input_value x) = []")
  case True
  then show ?thesis by (simp add: collectedValue_def StringToNumber_def trim_examples)
next
  case False
  with assms have ok: "\<not> rejected x" by (simp add: rejected_iff_Number)
  show ?thesis
  proof (cases "nonDecimalIntegerLiteral (trim (input_value x))")
    case None
    with assms(1) False ok show ?thesis
      by (simp add: collectedValue_def parseFloat_eq_StringToNumber)
  next
    case (Some n)
    then have "parseFloat (trim (input_value x)) = Fin 0"
      by (rule parseFloat_radix_literal) simp
    with Some False ok show ?thesis by (simp add: collectedValue_def)
  qed
qed

section \<open>The claims\<close>

subsection \<open>Validation\<close>

text \<open>
  C1. When the page has 12 income fields and 12 expense fields and the trimmed text of every
  one of them is a number not below zero for \<open>Number\<close>, the conversion that \<open>isNaN\<close>
  applies (the empty text is the number 0 for it), \<open>validateAndCollectData\<close> returns
  \<open>isValid = true\<close>, no field carries the invalid marker afterwards, and the entries of
  \<open>incomeData\<close> and \<open>expenseData\<close> are, in field order, the numbers that \<open>Number\<close>
  takes the trimmed texts for, except that the entry of a literal with a radix prefix
  (\<open>0x\<close>, \<open>0o\<close>, \<open>0b\<close>) is 0.
\<close>

theorem validateAndCollectData_valid_fields:
  assumes "length (incomeInputs w) = 12" and "length (expenseInputs w) = 12"
    and "\<forall>x\<in>set (incomeInputs w @ expenseInputs w).
           \<not> isNaN (trim (input_value x)) \<and>
           \<not> lt (StringToNumber (trim (input_value x))) (Fin 0)"
    and "validateAndCollectData w = (r, w')"
  shows "isValid r \<and>
         incomeData r =
           map (\<lambda>x. if nonDecimalIntegerLiteral (trim (input_value x)) = None
                     then StringToNumber (trim (input_value x)) else Fin 0)
             (incomeInputs w) \<and>
         expenseData r =
           map (\<lambda>x. if nonDecimalIntegerLiteral (trim (input_value x)) = None
                     then StringToNumber (trim (input_value x)) else Fin 0)
             (expenseInputs w) \<and>
         length (incomeData r) = 12 \<and> length (expenseData r) = 12 \<and>
         (\<forall>x\<in>set (incomeInputs w' @ expenseInputs w'). \<not> classList_contains ''is-invalid'' x)"
proof -
  have ok: "\<not> rejected x"
    and val: "collectedValue x =
                (if nonDecimalIntegerLiteral (trim (input_value x)) = None
                 then StringToNumber (trim (input_value x)) else Fin 0)"
    if "x \<in> set (incomeInputs w) \<union> set (expenseInputs w)" for x
  proof -
    from assms(3) that have "\<not> isNaN (trim (input_value x))"
      and "\<not> lt (StringToNumber (trim (input_value x))) (Fin 0)"
      by auto
    then show "\<not> rejected x"
      and "collectedValue x =
                (if nonDecimalIntegerLiteral (trim (input_value x)) = None
                 then StringToNumber (trim (input_value x)) else Fin 0)"
      by (simp add: rejected_iff_Number, rule collectedValue_Number)
  qed
  from assms(4) have r: "r = fst (validateAndCollectData w)"
    and w': "w' = snd (validateAndCollectData w)"
    by simp_all
  have "isValid r" using ok by (simp add: r validateAndCollectData_eq)
  moreover have "incomeData r =
           map (\<lambda>x. if nonDecimalIntegerLiteral (trim (input_value x)) = None
                     then StringToNumber (trim (input_value x)) else Fin 0)
             (incomeInputs w)"
    using val by (simp add: r validateAndCollectData_eq)
  moreover have "expenseData r =
           map (\<lambda>x. if nonDecimalIntegerLiteral (trim (input_value x)) = None
                     then StringToNumber (trim (input_value x)) else Fin 0)
             (expenseInputs w)"
    using val by (simp add: r validateAndCollectData_eq)
  moreover have "\<forall>x\<in>set (incomeInputs w' @ expenseInputs w'). \<not> classList_contains ''is-invalid'' x"
    using ok by (auto simp: w' validateAndCollectData_eq)
  ultimately show ?thesis using assms(1,2) by simp
qed

text \<open>
  A page with a hexadecimal literal, \<open>Infinity\<close> and empty fields: the three are numbers
  not below zero for \<open>Number\<close> (16, infinity and 0), and the entries are 0, infinity and 0.
\<close>

theorem validateAndCollectData_valid_fields_witness:
  "length (incomeInputs specialPage) = 12 \<and> length (expenseInputs specialPage) = 12 \<and>
   list_all
     (\<lambda>x. \<not> isNaN (trim (input_value x)) \<and>
          \<not> lt (StringToNumber (trim (input_value x))) (Fin 0))
     (incomeInputs specialPage @ expenseInputs specialPage) \<and>
   map (\<lambda>x. StringToNumber (trim (input_value x))) (incomeInputs specialPage) =
     [Fin 16, PosInfinity, Fin 0, Fin 0, Fin 0, Fin 0,
      Fin 0, Fin 0, Fin 0, Fin 0, Fin 0, Fin 0] \<and>
   isValid (fst (validateAndCollectData specialPage)) \<and>
   incomeData (fst (validateAndCollectData specialPage)) =
     [Fin 0, PosInfinity, Fin 0, Fin 0, Fin 0, Fin 0,
      Fin 0, Fin 0, Fin 0, Fin 0, Fin 0, Fin 0] \<and>
   expenseData (fst (validateAndCollectData specialPage)) =
     [Fin 0, Fin 0, Fin 0, Fin 0, Fin 0, Fin 0,
      Fin 0, Fin 0, Fin 0, Fin 0, Fin 0, Fin 0] \<and>
   list_all (\<lambda>x. \<not> classList_contains ''is-invalid'' x)
     (incomeInputs (snd (validateAndCollectData specialPage)) @
      expenseInputs (snd (validateAndCollectData specialPage)))"
  using validateAndCollectData_valid_fields [of specialPage, OF _ _ _ surjective_pairing]
  by (simp add: specialPage_def page_eval StringToNumber_examples
        radixOfPrefix_def digitsOfRadix_def)

text \<open>
  Under one meaning of the word parse, the texts that parse as numbers not below zero and
  the parsed values do not describe the function. Taken as \<open>Number\<close>: on the page of the
  first test with \<open>0x10\<close> as its first income, the 24 texts are numbers not below zero,
  the first one 16, and the call returns \<open>isValid = true\<close>, but the first entry of
  \<open>incomeData\<close> is 0 and not 16. Taken as \<open>parseFloat\<close>: with \<open>12abc\<close> there
  instead, \<open>parseFloat\<close> gives numbers not below zero for the 24 texts, the first one 12,
  but the call returns \<open>isValid = false\<close>, marks the first field and stores 0 for it.
\<close>

theorem validateAndCollectData_valid_fields_counterexample:
  "length (incomeInputs hexPage) = 12 \<and> length (expenseInputs hexPage) = 12 \<and>
   map (StringToNumber \<circ> trim \<circ> input_value) (incomeInputs hexPage) =
     [Fin 16, Fin 200, Fin 300, Fin 400, Fin 500, Fin 600,
      Fin 700, Fin 800, Fin 900, Fin 1000, Fin 1100, Fin 1200] \<and>
   map (StringToNumber \<circ> trim \<circ> input_value) (expenseInputs hexPage) =
     [Fin 50, Fin 100, Fin 150, Fin 200, Fin 250, Fin 300,
      Fin 350, Fin 400, Fin 450, Fin 500, Fin 550, Fin 600] \<and>
   isValid (fst (validateAndCollectData hexPage)) \<and>
   incomeData (fst (validateAndCollectData hexPage)) =
     [Fin 0, Fin 200, Fin 300, Fin 400, Fin 500, Fin 600,
      Fin 700, Fin 800, Fin 900, Fin 1000, Fin 1100, Fin 1200] \<and>
   incomeData (fst (validateAndCollectData hexPage)) \<noteq>
     map (StringToNumber \<circ> trim \<circ> input_value) (incomeInputs hexPage) \<and>
   length (incomeInputs prefixPage) = 12 \<and> length (expenseInputs prefixPage) = 12 \<and>
   map (parseFloat \<circ> trim \<circ> input_value) (incomeInputs prefixPage) =
     [Fin 12, Fin 200, Fin 300, Fin 400, Fin 500, Fin 600,
      Fin 700, Fin 800, Fin 900, Fin 1000, Fin 1100, Fin 1200] \<and>
   map (parseFloat \<circ> trim \<circ> input_value) (expenseInputs prefixPage) =
     [Fin 50, Fin 100, Fin 150, Fin 200, Fin 250, Fin 300,
      Fin 350, Fin 400, Fin 450, Fin 500, Fin 550, Fin 600] \<and>
   \<not> isValid (fst (validateAndCollectData prefixPage)) \<and>
   incomeData (fst (validateAndCollectData prefixPage)) =
     [Fin 0, Fin 200, Fin 300, Fin 400, Fin 500, Fin 600,
      Fin 700, Fin 800, Fin 900, Fin 1000, Fin 1100, Fin 1200] \<and>
   map (classList_contains ''is-invalid'')
     (incomeInputs (snd (validateAndCollectData prefixPage))) =
     [True, False, False, False, False, False, False, False, False, False, False, False]"
  by (simp add: hexPage_def prefixPage_def page_eval StringToNumber_examples)

text \<open>
  C2. A field whose trimmed text is not empty and either is no number (for \<open>Number\<close>, the
  conversion that \<open>isNaN\<close> applies) or is a number below zero gets the entry 0 in its
  series and the invalid marker, and \<open>isValid\<close> is false; every other field gets the entry
  of its own text (0 for an empty one, the parsed value otherwise) and no marker, whatever
  the fields before it were. Both series and both lists of fields keep the length of the
  form, so no field is skipped.
\<close>

theorem validateAndCollectData_invalid_fields:
  assumes "validateAndCollectData w = (r, w')"
  shows "length (incomeData r) = length (incomeInputs w) \<and>
         length (incomeInputs w') = length (incomeInputs w) \<and>
         length (expenseData r) = length (expenseInputs w) \<and>
         length (expenseInputs w') = length (expenseInputs w) \<and>
         (\<forall>i<length (incomeInputs w).
            let t = trim (input_value (incomeInputs w ! i))
            in if t \<noteq> [] \<and> (isNaN t \<or> lt (StringToNumber t) (Fin 0))
               then incomeData r ! i = Fin 0 \<and>
                    classList_contains ''is-invalid'' (incomeInputs w' ! i) \<and> \<not> isValid r
               else incomeData r ! i = (if t = [] then Fin 0 else parseFloat t) \<and>
                    \<not> classList_contains ''is-invalid'' (incomeInputs w' ! i)) \<and>
         (\<forall>i<length (expenseInputs w).
            let t = trim (input_value (expenseInputs w ! i))
            in if t \<noteq> [] \<and> (isNaN t \<or> lt (StringToNumber t) (Fin 0))
               then expenseData r ! i = Fin 0 \<and>
                    classList_contains ''is-invalid'' (expenseInputs w' ! i) \<and> \<not> isValid r
               else expenseData r ! i = (if t = [] then Fin 0 else parseFloat t) \<and>
                    \<not> classList_contains ''is-invalid'' (expenseInputs w' ! i))"
proof -
  from assms have r: "r = fst (validateAndCollectData w)"
    and w': "w' = snd (validateAndCollectData w)"
    by simp_all
  have lens: "length (incomeData r) = length (incomeInputs w)"
    "length (incomeInputs w') = length (incomeInputs w)"
    "length (expenseData r) = length (expenseInputs w)"
    "length (expenseInputs w') = length (expenseInputs w)"
    by (simp_all add: r w' validateAndCollectData_eq)
  have income: "let t = trim (input_value (incomeInputs w ! i))
            in if t \<noteq> [] \<and> (isNaN t \<or> lt (StringToNumber t) (Fin 0))
               then incomeData r ! i = Fin 0 \<and>
                    classList_contains ''is-invalid'' (incomeInputs w' ! i) \<and> \<not> isValid r
               else incomeData r ! i = (if t = [] then Fin 0 else parseFloat t) \<and>
                    \<not> classList_contains ''is-invalid'' (incomeInputs w' ! i)"
    if "i < length (incomeInputs w)" for i
  proof -
    from that have mem: "incomeInputs w ! i \<in> set (incomeInputs w)" by simp
    show ?thesis
    proof (cases "rejected (incomeInputs w ! i)")
      case True
      with mem have "\<not> isValid r" by (auto simp: r validateAndCollectData_eq)
      with True that show ?thesis
        by (simp add: r w' validateAndCollectData_eq Let_def collectedValue_def)
           (simp add: rejected_iff_Number)
    next
      case False
      with that show ?thesis
        by (simp add: r w' validateAndCollectData_eq Let_def collectedValue_def)
           (auto simp: rejected_iff_Number)
    qed
  qed
  have expense: "let t = trim (input_value (expenseInputs w ! i))
            in if t \<noteq> [] \<and> (isNaN t \<or> lt (StringToNumber t) (Fin 0))
               then expenseData r ! i = Fin 0 \<and>
                    classList_contains ''is-invalid'' (expenseInputs w' ! i) \<and> \<not> isValid r
               else expenseData r ! i = (if t = [] then Fin 0 else parseFloat t) \<and>
                    \<not> classList_contains ''is-invalid'' (expenseInputs w' ! i)"
    if "i < length (expenseInputs w)" for i
  proof -
    from that have mem: "expenseInputs w ! i \<in> set (expenseInputs w)" by simp
    show ?thesis
    proof (cases "rejected (expenseInputs w ! i)")
      case True
      with mem have "\<not> isValid r" by (auto simp: r validateAndCollectData_eq)
      with True that show ?thesis
        by (simp add: r w' validateAndCollectData_eq Let_def collectedValue_def)
           (simp add: rejected_iff_Number)
    next
      case False
      with that show ?thesis
        by (simp add: r w' validateAndCollectData_eq Let_def collectedValue_def)
           (auto simp: rejected_iff_Number)
    qed
  qed
  from lens income expense show ?thesis by blast
qed

text \<open>
  The mixed test of the repository: an empty, a negative and a textual income, and the same
  among the expenses.
\<close>

theorem validateAndCollectData_invalid_fields_witness:
  "(2::nat) < length (incomeInputs mixedPage) \<and>
   trim (input_value (incomeInputs mixedPage ! 2)) = ''-300'' \<and>
   lt (StringToNumber ''-300'') (Fin 0) \<and>
   \<not> isValid (fst (validateAndCollectData mixedPage)) \<and>
   incomeData (fst (validateAndCollectData mixedPage)) =
     [Fin 100, Fin 0, Fin 0, Fin 0, Fin 500, Fin 600,
      Fin 700, Fin 800, Fin 900, Fin 1000, Fin 1100, Fin 1200] \<and>
   expenseData (fst (validateAndCollectData mixedPage)) =
     [Fin 50, Fin 100, Fin 150, Fin 200, Fin 0, Fin 0,
      Fin 0, Fin 400, Fin 450, Fin 500, Fin 550, Fin 600] \<and>
   map (classList_contains ''is-invalid'') (incomeInputs (snd (validateAndCollectData mixedPage))) =
     [False, False, True, True, False, False, False, False, False, False, False, False] \<and>
   map (classList_contains ''is-invalid'') (expenseInputs (snd (validateAndCollectData mixedPage))) =
     [False, False, False, False, False, True, True, False, False, False, False, False]"
  using validateAndCollectData_invalid_fields [of mixedPage, OF surjective_pairing]
  by (simp add: mixedPage_def page_eval StringToNumber_examples)

text \<open>
  C7. When all 24 fields are empty after trimming, \<open>validateAndCollectData\<close> returns
  \<open>isValid = true\<close>, both series are twelve zeros and no field carries the invalid marker.
\<close>

theorem validateAndCollectData_blank_fields:
  assumes "length (incomeInputs w) = 12" and "length (expenseInputs w) = 12"
    and "\<forall>x\<in>set (incomeInputs w @ expenseInputs w). trim (input_value x) = []"
    and "validateAndCollectData w = (r, w')"
  shows "isValid r \<and>
         incomeData r = replicate 12 (Fin 0) \<and>
         expenseData r = replicate 12 (Fin 0) \<and>
         (\<forall>x\<in>set (incomeInputs w' @ expenseInputs w'). \<not> classList_contains ''is-invalid'' x)"
proof -
  have ok: "\<not> rejected x" and val: "collectedValue x = Fin 0"
    if "x \<in> set (incomeInputs w) \<union> set (expenseInputs w)" for x
    using assms(3) that by (auto simp: rejected_def collectedValue_def)
  from assms(4) have r: "r = fst (validateAndCollectData w)"
    and w': "w' = snd (validateAndCollectData w)"
    by simp_all
  have "isValid r" using ok by (simp add: r validateAndCollectData_eq)
  moreover have "incomeData r = replicate 12 (Fin 0)"
    using val assms(1) by (simp add: r validateAndCollectData_eq map_replicate_const cong: map_cong)
  moreover have "expenseData r = replicate 12 (Fin 0)"
    using val assms(2) by (simp add: r validateAndCollectData_eq map_replicate_const cong: map_cong)
  moreover have "\<forall>x\<in>set (incomeInputs w' @ expenseInputs w'). \<not> classList_contains ''is-invalid'' x"
    using ok by (auto simp: w' validateAndCollectData_eq)
  ultimately show ?thesis by simp
qed

theorem validateAndCollectData_blank_fields_witness:
  "length (incomeInputs blankPage) = 12 \<and> length (expenseInputs blankPage) = 12 \<and>
   list_all (\<lambda>x. trim (input_value x) = []) (incomeInputs blankPage @ expenseInputs blankPage) \<and>
   isValid (fst (validateAndCollectData blankPage)) \<and>
   incomeData (fst (validateAndCollectData blankPage)) =
     [Fin 0, Fin 0, Fin 0, Fin 0, Fin 0, Fin 0, Fin 0, Fin 0, Fin 0, Fin 0, Fin 0, Fin 0] \<and>
   expenseData (fst (validateAndCollectData blankPage)) =
     [Fin 0, Fin 0, Fin 0, Fin 0, Fin 0, Fin 0, Fin 0, Fin 0, Fin 0, Fin 0, Fin 0, Fin 0] \<and>
   list_all (\<lambda>x. \<not> classList_contains ''is-invalid'' x)
     (incomeInputs (snd (validateAndCollectData blankPage)) @
      expenseInputs (snd (validateAndCollectData blankPage)))"
  using validateAndCollectData_blank_fields [of blankPage, OF _ _ _ surjective_pairing]
  by (simp add: blankPage_def page_eval)

text \<open>
  C8. \<open>validateAndCollectData\<close> is idempotent: called again on the page that a first call
  leaves, with the texts of the fields unchanged, it returns the same object and leaves the
  same page, hence the same markers, whatever the markers were before the first call.
\<close>

theorem validateAndCollectData_idempotent:
  "validateAndCollectData (snd (validateAndCollectData w)) = validateAndCollectData w"
  by (simp add: validateAndCollectData_eq)

theorem validateAndCollectData_idempotent_witness:
  "validateAndCollectData (snd (validateAndCollectData mixedPage)) =
     validateAndCollectData mixedPage \<and>
   \<not> isValid (fst (validateAndCollectData (snd (validateAndCollectData mixedPage)))) \<and>
   map (classList_contains ''is-invalid'')
     (incomeInputs (snd (validateAndCollectData (snd (validateAndCollectData mixedPage))))) =
     [False, False, True, True, False, False, False, False, False, False, False, False]"
  using validateAndCollectData_idempotent [of mixedPage]
  by (simp add: mixedPage_def page_eval)

text \<open>
  C9. The validity test and the stored value come from two parsers: \<open>isNaN\<close> converts
  the whole text as \<open>Number\<close> does, \<open>parseFloat\<close> converts its longest decimal prefix.
  So \<open>0x10\<close> is the number 16 for the test and is accepted, and 0 is stored; and
  \<open>Infinity\<close> is accepted and the value stored is not finite. In both cases \<open>isValid\<close>
  stays true and no field is marked.
\<close>

theorem validity_test_and_stored_value_differ:
  "StringToNumber ''0x10'' = Fin 16 \<and> \<not> isNaN ''0x10'' \<and> parseFloat ''0x10'' = Fin 0 \<and>
   StringToNumber ''Infinity'' = PosInfinity \<and> \<not> isNaN ''Infinity'' \<and>
   parseFloat ''Infinity'' = PosInfinity \<and>
   isValid (fst (validateAndCollectData specialPage)) \<and>
   incomeData (fst (validateAndCollectData specialPage)) =
     [Fin 0, PosInfinity, Fin 0, Fin 0, Fin 0, Fin 0, Fin 0, Fin 0, Fin 0, Fin 0, Fin 0, Fin 0] \<and>
   map (classList_contains ''is-invalid'')
     (incomeInputs (snd (validateAndCollectData specialPage))) =
     [False, False, False, False, False, False, False, False, False, False, False, False]"
  by (simp add: specialPage_def page_eval StringToNumber_examples)

subsection \<open>Rendering\<close>

text \<open>
  C3. When \<open>validateAndCollectData\<close> returns \<open>isValid = false\<close>, \<open>renderChart\<close> shows
  the message once and returns: no chart is constructed, \<open>chartInstance\<close> and every chart
  stay as they were, and so do the charts that are not destroyed.
\<close>

theorem renderChart_validation_failure:
  assumes "validateAndCollectData w = (r, w1)" and "\<not> isValid r"
  shows "renderChart w =
           (None, w1\<lparr>alerts := alerts w @
                       [''Please fix the validation errors before updating the chart.'']\<rparr>) \<and>
         chartInstance w1 = chartInstance w \<and> charts w1 = charts w \<and>
         alerts w1 = alerts w \<and> downloads w1 = downloads w \<and>
         liveCharts (snd (renderChart w)) = liveCharts w"
proof -
  from assms(1) have w1: "w1 = snd (validateAndCollectData w)" by simp
  have same: "chartInstance w1 = chartInstance w" "charts w1 = charts w"
    "alerts w1 = alerts w" "downloads w1 = downloads w"
    by (simp_all add: w1 validateAndCollectData_eq)
  have render: "renderChart w =
           (None, w1\<lparr>alerts := alerts w @
                       [''Please fix the validation errors before updating the chart.'']\<rparr>)"
    using assms same by (simp add: renderChart_def alert_def)
  then have "liveCharts (snd (renderChart w)) = liveCharts w"
    using same by (simp add: liveCharts_def)
  with render same show ?thesis by simp
qed

text \<open>
  The failing render of the repository's tests: the first income is negative.
\<close>

theorem renderChart_validation_failure_witness:
  "\<not> isValid (fst (validateAndCollectData negativePage)) \<and>
   fst (renderChart negativePage) = None \<and>
   alerts (snd (renderChart negativePage)) =
     [''Please fix the validation errors before updating the chart.''] \<and>
   charts (snd (renderChart negativePage)) = [] \<and>
   chartInstance (snd (renderChart negativePage)) = None"
  using renderChart_validation_failure [of negativePage, OF surjective_pairing]
  by (simp add: negativePage_facts negativePage_collected)



text \<open>
  C4. At most one chart is live at any time, and whenever \<open>renderChart\<close> constructs a chart
  the one before has been destroyed first. In every state that a sequence of events leads to
  from the loaded script, the charts that are not destroyed are exactly the one that
  \<open>chartInstance\<close> refers to, if any, and they are the charts that the calls made to the
  library so far leave live. At every moment of that sequence of calls at most one chart is
  live, and every call of the constructor comes when none is, by the count of the calls
  before it and in the store it finds. When a render in such a state constructs a chart (the
  page validates and the canvas is there), it calls \<open>destroy\<close> on the chart that
  \<open>chartInstance\<close> referred to, if any, then the constructor, which finds no live chart,
  and makes no other call; the new chart is the only live one afterwards. A render that
  constructs none calls nothing and leaves the charts as they were.
\<close>

theorem at_most_one_live_chart:
  assumes "loaded w0"
  shows "let w = run toBase64Image es w0; w' = snd (renderChart w)
         in liveCharts w = (case chartInstance w of None \<Rightarrow> [] | Some a \<Rightarrow> [a]) \<and>
            length (liveCharts w) \<le> 1 \<and>
            liveAfter (calls w) = liveCharts w \<and>
            (\<forall>n\<le>length (calls w). length (liveAfter (take n (calls w))) \<le> 1) \<and>
            (\<forall>n<length (calls w). \<forall>a seen.
               calls w ! n = Chart_new a seen \<longrightarrow>
               seen = [] \<and> liveAfter (take n (calls w)) = []) \<and>
            (if isValid (fst (validateAndCollectData w)) \<and> budgetChart w \<noteq> None
             then calls w' =
                    calls w @
                    (case chartInstance w of None \<Rightarrow> [] | Some a \<Rightarrow> [Chart_destroy a]) @
                    [Chart_new (length (charts w)) []] \<and>
                  length (charts w') = Suc (length (charts w)) \<and>
                  chartInstance w' = Some (length (charts w)) \<and>
                  (\<forall>a. chartInstance w = Some a \<longrightarrow> destroyed (charts w' ! a)) \<and>
                  liveCharts w' = [length (charts w)]
             else calls w' = calls w \<and> charts w' = charts w \<and>
                  chartInstance w' = chartInstance w)"
proof -
  define w where "w = run toBase64Image es w0"
  define w' where "w' = snd (renderChart w)"
  from assms have tr: "traced w"
    unfolding w_def by (intro traced_run traced_loaded)
  then have inv: "singleOwner w" and ord: "orderly (calls w)"
    and acc: "liveAfter (calls w) = liveCharts w"
    by (simp_all add: traced_def)
  from inv have inv': "singleOwner w'"
    unfolding w'_def by (rule singleOwner_renderChart)
  have live: "liveCharts w = (case chartInstance w of None \<Rightarrow> [] | Some a \<Rightarrow> [a])"
    using inv by (rule liveCharts_singleOwner)
  then have one: "length (liveCharts w) \<le> 1" by (simp split: option.splits)
  note moments = orderly_take [OF ord]
  have step: "if isValid (fst (validateAndCollectData w)) \<and> budgetChart w \<noteq> None
             then calls w' =
                    calls w @
                    (case chartInstance w of None \<Rightarrow> [] | Some a \<Rightarrow> [Chart_destroy a]) @
                    [Chart_new (length (charts w)) []] \<and>
                  length (charts w') = Suc (length (charts w)) \<and>
                  chartInstance w' = Some (length (charts w)) \<and>
                  (\<forall>a. chartInstance w = Some a \<longrightarrow> destroyed (charts w' ! a)) \<and>
                  liveCharts w' = [length (charts w)]
             else calls w' = calls w \<and> charts w' = charts w \<and>
                  chartInstance w' = chartInstance w"
  proof (cases "isValid (fst (validateAndCollectData w)) \<and> budgetChart w \<noteq> None")
    case True
    then obtain c where valid: "isValid (fst (validateAndCollectData w))"
      and canvas: "budgetChart w = Some c" by auto
    note render = renderChart_valid [OF valid canvas, unfolded liveCharts_destroyed [OF inv]]
    have trace: "calls w' =
                    calls w @
                    (case chartInstance w of None \<Rightarrow> [] | Some a \<Rightarrow> [Chart_destroy a]) @
                    [Chart_new (length (charts w)) []]"
      unfolding w'_def by (simp add: render)
    have len: "length (charts w') = Suc (length (charts w))"
      and cur: "chartInstance w' = Some (length (charts w))"
      unfolding w'_def by (simp_all add: render split: option.splits)
    have old: "destroyed (charts w' ! a)" if "chartInstance w = Some a" for a
    proof -
      from inv that have "a < length (charts w)" by (simp add: singleOwner_def)
      with that show ?thesis
        unfolding w'_def by (simp add: render nth_append)
    qed
    from cur have "liveCharts w' = [length (charts w)]"
      by (simp add: liveCharts_singleOwner [OF inv'])
    with True trace len cur old show ?thesis by simp
  next
    case False
    then show ?thesis
      unfolding w'_def
      by (cases "isValid (fst (validateAndCollectData w))")
         (auto simp: renderChart_invalid renderChart_no_canvas)
  qed
  from live one acc moments step show ?thesis
    unfolding w_def [symmetric] w'_def [symmetric] Let_def by simp
qed

text \<open>
  Rendering twice in succession, as the repository's tests do: the first chart is destroyed
  before the second is constructed, and the second is the one live chart.
\<close>

theorem at_most_one_live_chart_witness:
  "loaded numericPage \<and>
   (let w = run mockImage [UpdateChartBtn_click, ChartTab_shown] numericPage
    in calls w = [Chart_new 0 [], Chart_destroy 0, Chart_new 1 []] \<and>
       map (\<lambda>n. liveAfter (take n (calls w))) [0, 1, 2, 3] = [[], [0], [], [1]] \<and>
       chartInstance w = Some 1 \<and> length (charts w) = 2 \<and>
       destroyed (charts w ! 0) \<and> liveCharts w = [1])"
  using at_most_one_live_chart [of numericPage mockImage "[]"]
    at_most_one_live_chart [of numericPage mockImage "[UpdateChartBtn_click]"]
  by (simp add: loaded_def numericPage_facts numericPage_collected Let_def liveAfter_def)

text \<open>
  C10. Once a render has succeeded, \<open>chartInstance\<close> is never \<open>null\<close> again, whatever
  events follow: the export handler then shows no message and starts a download.
\<close>

theorem chartInstance_never_null_again:
  assumes "isValid (fst (validateAndCollectData w))" and "budgetChart w \<noteq> None"
  shows "let w' = run toBase64Image es (snd (renderChart w))
         in chartInstance w' \<noteq> None \<and>
            alerts (downloadChartBtn_click toBase64Image w') = alerts w' \<and>
            length (downloads (downloadChartBtn_click toBase64Image w')) =
              Suc (length (downloads w'))"
proof -
  from assms obtain c where "budgetChart w = Some c" by auto
  with assms(1) have "chartInstance (snd (renderChart w)) \<noteq> None"
    by (simp add: renderChart_valid)
  then have "chartInstance (run toBase64Image es (snd (renderChart w))) \<noteq> None"
    by (rule chartInstance_run)
  then show ?thesis
    by (auto simp: downloadChartBtn_click_def Let_def)
qed

theorem chartInstance_never_null_again_witness:
  "isValid (fst (validateAndCollectData numericPage)) \<and> budgetChart numericPage \<noteq> None \<and>
   (let w' = run mockImage
               [IncomeInput_edit 0 ''abc'', UpdateChartBtn_click, DownloadChartBtn_click]
               (snd (renderChart numericPage))
    in chartInstance w' \<noteq> None \<and>
       alerts (downloadChartBtn_click mockImage w') = alerts w' \<and>
       length (downloads (downloadChartBtn_click mockImage w')) = Suc (length (downloads w')))"
  using chartInstance_never_null_again [of numericPage mockImage
      "[IncomeInput_edit 0 ''abc'', UpdateChartBtn_click, DownloadChartBtn_click]"]
  by (simp add: numericPage_facts numericPage_collected)

subsection \<open>Export\<close>

text \<open>
  C6. The export handler shows the message \<open>Please update the chart first before
  downloading.\<close> and starts no download when \<open>chartInstance\<close> is \<open>null\<close>, and only
  then; otherwise it shows nothing and clicks one link, whose target is the image encoding
  of the current chart and whose file name is \<open>budget-chart.png\<close>.
\<close>

theorem downloadChartBtn_click_precondition:
  "(chartInstance w = None \<longrightarrow>
      downloadChartBtn_click toBase64Image w =
        w\<lparr>alerts := alerts w @ [''Please update the chart first before downloading.'']\<rparr>) \<and>
   (\<forall>a. chartInstance w = Some a \<longrightarrow>
      downloadChartBtn_click toBase64Image w =
        w\<lparr>downloads := downloads w @
             [\<lparr>href = toBase64Image (charts w ! a), download = ''budget-chart.png''\<rparr>]\<rparr>) \<and>
   ((alerts (downloadChartBtn_click toBase64Image w) =
       alerts w @ [''Please update the chart first before downloading.''] \<and>
     downloads (downloadChartBtn_click toBase64Image w) = downloads w) =
    (chartInstance w = None))"
  by (cases "chartInstance w") (simp_all add: downloadChartBtn_click_def alert_def)

text \<open>
  Before the first render, and after it with the mock chart of the tests.
\<close>

theorem downloadChartBtn_click_precondition_witness:
  "chartInstance numericPage = None \<and>
   alerts (downloadChartBtn_click mockImage numericPage) =
     [''Please update the chart first before downloading.''] \<and>
   downloads (downloadChartBtn_click mockImage numericPage) = [] \<and>
   chartInstance (snd (renderChart numericPage)) = Some 0 \<and>
   downloads (downloadChartBtn_click mockImage (snd (renderChart numericPage))) =
     [\<lparr>href = ''data:image/png;base64,mockImageData'', download = ''budget-chart.png''\<rparr>]"
  using downloadChartBtn_click_precondition [of numericPage mockImage]
    downloadChartBtn_click_precondition [of "snd (renderChart numericPage)" mockImage]
    renderChart_valid [of numericPage Context2D]
  by (simp add: numericPage_facts numericPage_collected mockImage_def)

end
